theory Spec2Isabelle
  imports Complex_Main
begin

section \<open>The whiteboard canvas: data model\<close>

text \<open>
  A shallow embedding of \<^verbatim>\<open>src/app/board/[boardId]/_components/canvas.tsx\<close>.
  JavaScript numbers are IEEE doubles. A finite double is modelled by the real number
  it denotes; NaN and the infinities are left out. \<^verbatim>\<open>Math.abs\<close> and the comparisons
  of doubles are exact, so they are those of the reals. Addition and subtraction round
  their result to a double: they are not those of the reals, and the handlers take
  them as a parameter (the record \<open>arith\<close> below).
  The types of \<^verbatim>\<open>@/types/canvas\<close> are declared outside the component; they are
  written here as the component uses them.
\<close>

type_synonym number = real

type_synonym layerId = string

text \<open>\<^verbatim>\<open>Point\<close> and \<^verbatim>\<open>Camera\<close> are both \<^verbatim>\<open>{x, y}\<close>; \<^verbatim>\<open>XYWH\<close> and the layers
  extend that shape, so one selector \<open>x\<close> reads all of them.\<close>

record point =
  x :: number
  y :: number

type_synonym camera = point

record color =
  r :: number
  g :: number
  b :: number

record xywh = point +
  width :: number
  height :: number

datatype LayerType = Rectangle | Ellipse | Path | Text | Note

text \<open>A pencil sample is the array \<^verbatim>\<open>[x, y, pressure]\<close>.\<close>

type_synonym sample = "number \<times> number \<times> number"

text \<open>A stored layer (the content of a \<^verbatim>\<open>LiveObject\<close>). Only path layers carry
  \<open>points\<close>.\<close>

record layer = xywh +
  type :: LayerType
  fill :: color
  points :: "sample list option"

text \<open>\<^verbatim>\<open>Side\<close> is a numeric enum of \<^verbatim>\<open>@/types/canvas\<close>; the component only passes it on.\<close>

type_synonym side = nat

text \<open>\<^verbatim>\<open>CanvasState\<close>: one constructor per \<^verbatim>\<open>CanvasMode\<close>, with the payload of that
  variant. \<^verbatim>\<open>CanvasMode.None\<close> is written \<open>NoneMode\<close> (\<open>None\<close> is the option's).\<close>

datatype canvasState =
    NoneMode
  | Pressing point
  | SelectionNet point point
  | Translating point
  | Resizing xywh side
  | Inserting LayerType
  | Pencil

text \<open>The caller's presence, \<^verbatim>\<open>self.presence\<close>; \<open>None\<close> is JavaScript's \<^verbatim>\<open>null\<close>.\<close>

record presence =
  selection :: "layerId list"
  cursor :: "point option"
  pencilDraft :: "sample list option"
  penColor :: "color option"

text \<open>One field of the partial object handed to \<^verbatim>\<open>setMyPresence\<close>.\<close>

datatype presenceField =
    Selection "layerId list"
  | Cursor "point option"
  | PencilDraft "sample list option"
  | PenColor "color option"

text \<open>What the component can observe and drive of \<^verbatim>\<open>useHistory()\<close>: whether recording
  is paused, and the presence updates it asked to be undoable
  (\<^verbatim>\<open>{ addToHistory: true }\<close>), oldest first.\<close>

record history =
  paused :: bool
  undoable :: "presenceField list list"

record pointerEvent =
  clientX :: number
  clientY :: number
  buttons :: nat
  pressure :: number

record wheelEvent =
  deltaX :: number
  deltaY :: number

text \<open>The language's \<^verbatim>\<open>+\<close> and \<^verbatim>\<open>-\<close> on numbers. Nothing is assumed of them: what
  is proved of the handlers holds for the rounding arithmetic of doubles (\<open>ieee\<close>
  below) as for any other.\<close>

record arith =
  numAdd :: "number \<Rightarrow> number \<Rightarrow> number"
  numSub :: "number \<Rightarrow> number \<Rightarrow> number"

text \<open>The functions imported from \<^verbatim>\<open>@/lib/utils\<close>: their code is not part of the
  component, so the handlers take them as a parameter.\<close>

record utils =
  pointerEventToCanvasPoint :: "pointerEvent \<Rightarrow> camera \<Rightarrow> point"
  findIntersectingLayersWithRectangle ::
    "layerId list \<Rightarrow> (layerId \<rightharpoonup> layer) \<Rightarrow> point \<Rightarrow> point \<Rightarrow> layerId list"
  penPointsToPathLayer :: "sample list \<Rightarrow> color \<Rightarrow> layer"
  resizeBounds :: "xywh \<Rightarrow> side \<Rightarrow> point \<Rightarrow> xywh"

text \<open>Everything the component reads and writes: the shared storage (\<open>layers\<close>, a
  \<^verbatim>\<open>LiveMap\<close>, and \<open>layerIds\<close>, a \<^verbatim>\<open>LiveList\<close>), the caller's presence, the
  three \<^verbatim>\<open>useState\<close> cells and the history.\<close>

record state =
  layers :: "layerId \<rightharpoonup> layer"
  layerIds :: "layerId list"
  presence :: presence
  canvasState :: canvasState
  camera :: camera
  lastUsedColor :: color
  history :: history

section \<open>The collaborators' operations the component calls\<close>

definition MAX_LAYERS :: nat where
  "MAX_LAYERS = 100"

text \<open>\<^verbatim>\<open>liveLayers.size\<close>.\<close>

definition size_layers :: "(layerId \<rightharpoonup> layer) \<Rightarrow> nat" where
  "size_layers m = card (dom m)"

fun applyField :: "presenceField \<Rightarrow> presence \<Rightarrow> presence" where
  "applyField (Selection ids) p = p\<lparr>selection := ids\<rparr>"
| "applyField (Cursor c) p = p\<lparr>cursor := c\<rparr>"
| "applyField (PencilDraft d) p = p\<lparr>pencilDraft := d\<rparr>"
| "applyField (PenColor c) p = p\<lparr>penColor := c\<rparr>"

text \<open>\<^verbatim>\<open>setMyPresence(patch, { addToHistory })\<close>: the fields of the patch overwrite the
  presence; an update flagged \<^verbatim>\<open>addToHistory\<close> is entered in the history.\<close>

definition setMyPresence :: "presenceField list \<Rightarrow> bool \<Rightarrow> state \<Rightarrow> state" where
  "setMyPresence patch addToHistory s =
     s\<lparr>presence := fold applyField patch (presence s),
       history := (if addToHistory
                   then (history s)\<lparr>undoable := undoable (history s) @ [patch]\<rparr>
                   else history s)\<rparr>"

definition setCanvasState :: "canvasState \<Rightarrow> state \<Rightarrow> state" where
  "setCanvasState cs s = s\<lparr>canvasState := cs\<rparr>"

definition history_pause :: "state \<Rightarrow> state" where
  "history_pause s = s\<lparr>history := (history s)\<lparr>paused := True\<rparr>\<rparr>"

definition history_resume :: "state \<Rightarrow> state" where
  "history_resume s = s\<lparr>history := (history s)\<lparr>paused := False\<rparr>\<rparr>"

section \<open>The mutations and handlers of the component\<close>

text \<open>\<open>newId\<close> is what \<^verbatim>\<open>nanoid()\<close> returns in this call.\<close>

definition insertLayer :: "layerId \<Rightarrow> LayerType \<Rightarrow> point \<Rightarrow> state \<Rightarrow> state" where
  "insertLayer newId layerType position s =
     (if size_layers (layers s) \<ge> MAX_LAYERS then s
      else
        let layer = \<lparr>x = x position, y = y position, width = 100, height = 100,
                     type = layerType, fill = lastUsedColor s, points = None\<rparr>;
            s1 = s\<lparr>layerIds := layerIds s @ [newId]\<rparr>;
            s2 = s1\<lparr>layers := (layers s1)(newId \<mapsto> layer)\<rparr>;
            s3 = setMyPresence [Selection [newId]] True s2
        in setCanvasState NoneMode s3)"

definition unselectLayers :: "state \<Rightarrow> state" where
  "unselectLayers s =
     (if length (selection (presence s)) > 0
      then setMyPresence [Selection []] True s
      else s)"

definition insertPath :: "utils \<Rightarrow> layerId \<Rightarrow> state \<Rightarrow> state" where
  "insertPath u newId s =
     (case pencilDraft (presence s) of
        None \<Rightarrow> setMyPresence [PencilDraft None] False s
      | Some draft \<Rightarrow>
          if length draft < 2 \<or> size_layers (layers s) \<ge> MAX_LAYERS
          then setMyPresence [PencilDraft None] False s
          else
            let s1 = s\<lparr>layers :=
                       (layers s)(newId \<mapsto> penPointsToPathLayer u draft (lastUsedColor s))\<rparr>;
                s2 = s1\<lparr>layerIds := layerIds s1 @ [newId]\<rparr>;
                s3 = setMyPresence [PencilDraft None] False s2
            in setCanvasState Pencil s3)"

definition startMultiSelection :: "arith \<Rightarrow> point \<Rightarrow> point \<Rightarrow> state \<Rightarrow> state" where
  "startMultiSelection ar current origin s =
     (if numAdd ar \<bar>numSub ar (x current) (x origin)\<bar> \<bar>numSub ar (y current) (y origin)\<bar> > 5
      then setCanvasState (SelectionNet origin current) s
      else s)"

text \<open>\<open>layerIds s\<close> stands for the component's \<^verbatim>\<open>layerIds\<close>, the snapshot
  \<^verbatim>\<open>useStorage\<close> gives of the stored order.\<close>

definition updateSelectionNet :: "utils \<Rightarrow> point \<Rightarrow> point \<Rightarrow> state \<Rightarrow> state" where
  "updateSelectionNet u current origin s =
     (let ls = layers s;
          s1 = setCanvasState (SelectionNet origin current) s;
          ids = findIntersectingLayersWithRectangle u (layerIds s) ls origin current
      in setMyPresence [Selection ids] False s1)"

text \<open>The body of the \<^verbatim>\<open>for\<close> loop of \<^verbatim>\<open>translateSelectedLayers\<close>: one id, guarded
  by \<^verbatim>\<open>if (layer)\<close>.\<close>

definition translateLayer ::
  "arith \<Rightarrow> point \<Rightarrow> layerId \<Rightarrow> (layerId \<rightharpoonup> layer) \<Rightarrow> (layerId \<rightharpoonup> layer)" where
  "translateLayer ar offset i ls =
     (case ls i of
        None \<Rightarrow> ls
      | Some l \<Rightarrow>
          ls(i \<mapsto> l\<lparr>x := numAdd ar (x l) (x offset), y := numAdd ar (y l) (y offset)\<rparr>))"

definition translateSelectedLayers :: "arith \<Rightarrow> point \<Rightarrow> state \<Rightarrow> state" where
  "translateSelectedLayers ar pt s =
     (case canvasState s of
        Translating cur \<Rightarrow>
          let offset = \<lparr>x = numSub ar (x pt) (x cur), y = numSub ar (y pt) (y cur)\<rparr>;
              s1 = s\<lparr>layers :=
                     fold (translateLayer ar offset) (selection (presence s)) (layers s)\<rparr>
          in setCanvasState (Translating pt) s1
      | _ \<Rightarrow> s)"

text \<open>\<^verbatim>\<open>self.presence.selection[0]\<close> is \<^verbatim>\<open>undefined\<close> on an empty selection, and
  \<^verbatim>\<open>liveLayers.get(undefined)\<close> finds nothing.\<close>

definition resizeSelectedLayer :: "utils \<Rightarrow> point \<Rightarrow> state \<Rightarrow> state" where
  "resizeSelectedLayer u pt s =
     (case canvasState s of
        Resizing initialBounds corner \<Rightarrow>
          let bounds = resizeBounds u initialBounds corner pt in
          (case selection (presence s) of
             [] \<Rightarrow> s
           | i # _ \<Rightarrow>
               (case layers s i of
                  None \<Rightarrow> s
                | Some l \<Rightarrow>
                    s\<lparr>layers := (layers s)(i \<mapsto>
                        l\<lparr>x := x bounds, y := y bounds,
                          width := width bounds, height := height bounds\<rparr>)\<rparr>))
      | _ \<Rightarrow> s)"

definition continueDrawing :: "point \<Rightarrow> pointerEvent \<Rightarrow> state \<Rightarrow> state" where
  "continueDrawing pt e s =
     (if canvasState s \<noteq> Pencil \<or> buttons e \<noteq> 1 \<or> pencilDraft (presence s) = None
      then s
      else
        case pencilDraft (presence s) of
          None \<Rightarrow> s
        | Some draft \<Rightarrow>
            setMyPresence
              [Cursor (Some pt),
               PencilDraft (Some
                 (if length draft = 1 \<and> fst (draft ! 0) = x pt
                     \<and> fst (snd (draft ! 0)) = y pt
                  then draft
                  else draft @ [(x pt, y pt, pressure e)]))]
              False s)"

definition startDrawing :: "point \<Rightarrow> number \<Rightarrow> state \<Rightarrow> state" where
  "startDrawing pt pr s =
     setMyPresence
       [PencilDraft (Some [(x pt, y pt, pr)]), PenColor (Some (lastUsedColor s))] False s"

definition onWheel :: "arith \<Rightarrow> wheelEvent \<Rightarrow> state \<Rightarrow> state" where
  "onWheel ar e s =
     s\<lparr>camera := \<lparr>x = numSub ar (x (camera s)) (deltaX e),
                   y = numSub ar (y (camera s)) (deltaY e)\<rparr>\<rparr>"

definition onPointerMove :: "arith \<Rightarrow> utils \<Rightarrow> pointerEvent \<Rightarrow> state \<Rightarrow> state" where
  "onPointerMove ar u e s =
     (let current = pointerEventToCanvasPoint u e (camera s);
          s1 = (case canvasState s of
                  Pressing origin \<Rightarrow> startMultiSelection ar current origin s
                | SelectionNet origin _ \<Rightarrow> updateSelectionNet u current origin s
                | Translating _ \<Rightarrow> translateSelectedLayers ar current s
                | Resizing _ _ \<Rightarrow> resizeSelectedLayer u current s
                | Pencil \<Rightarrow> continueDrawing current e s
                | _ \<Rightarrow> s)
      in setMyPresence [Cursor (Some current)] False s1)"

definition onPointerLeave :: "state \<Rightarrow> state" where
  "onPointerLeave s = setMyPresence [Cursor None] False s"

definition onPointerDown :: "utils \<Rightarrow> pointerEvent \<Rightarrow> state \<Rightarrow> state" where
  "onPointerDown u e s =
     (let pt = pointerEventToCanvasPoint u e (camera s) in
      case canvasState s of
        Inserting _ \<Rightarrow> s
      | Pencil \<Rightarrow> startDrawing pt (pressure e) s
      | _ \<Rightarrow> setCanvasState (Pressing pt) s)"

definition onPointerUp :: "utils \<Rightarrow> layerId \<Rightarrow> pointerEvent \<Rightarrow> state \<Rightarrow> state" where
  "onPointerUp u newId e s =
     (let pt = pointerEventToCanvasPoint u e (camera s);
          s1 = (case canvasState s of
                  NoneMode \<Rightarrow> setCanvasState NoneMode (unselectLayers s)
                | Pressing _ \<Rightarrow> setCanvasState NoneMode (unselectLayers s)
                | Pencil \<Rightarrow> insertPath u newId s
                | Inserting layerType \<Rightarrow> insertLayer newId layerType pt s
                | _ \<Rightarrow> setCanvasState NoneMode s)
      in history_resume s1)"

definition onLayerPointerDown :: "utils \<Rightarrow> pointerEvent \<Rightarrow> layerId \<Rightarrow> state \<Rightarrow> state" where
  "onLayerPointerDown u e layerId s =
     (case canvasState s of
        Pencil \<Rightarrow> s
      | Inserting _ \<Rightarrow> s
      | _ \<Rightarrow>
          let s1 = history_pause s;
              pt = pointerEventToCanvasPoint u e (camera s1);
              s2 = (if layerId \<notin> set (selection (presence s1))
                    then setMyPresence [Selection [layerId]] True s1
                    else s1)
          in setCanvasState (Translating pt) s2)"

text \<open>The events the rendered tree can deliver. The \<^verbatim>\<open><svg>\<close> element binds
  \<^verbatim>\<open>onWheel\<close>, \<^verbatim>\<open>onPointerMove\<close>, \<^verbatim>\<open>onPointerLeave\<close>, \<^verbatim>\<open>onPointerDown\<close> and
  \<^verbatim>\<open>onPointerUp\<close>; each layer preview receives \<^verbatim>\<open>onLayerPointerDown\<close>. Nothing is
  bound for a lost pointer capture, so that event reaches no handler. A pointer-down
  on a layer that \<open>onLayerPointerDown\<close> lets through (in the \<open>Pencil\<close> and \<open>Inserting\<close>
  modes it returns before \<^verbatim>\<open>stopPropagation\<close>) bubbles to the \<^verbatim>\<open><svg>\<close>: in a trace
  it is followed by a \<open>PointerDown\<close>. \<open>PointerUp\<close> carries what \<^verbatim>\<open>nanoid()\<close> returns
  if the handler draws an id.\<close>

datatype event =
    Wheel wheelEvent
  | PointerMove pointerEvent
  | PointerLeave
  | PointerDown pointerEvent
  | PointerUp layerId pointerEvent
  | LayerPointerDown pointerEvent layerId
  | LostPointerCapture

fun dispatch :: "arith \<Rightarrow> utils \<Rightarrow> event \<Rightarrow> state \<Rightarrow> state" where
  "dispatch ar u (Wheel e) s = onWheel ar e s"
| "dispatch ar u (PointerMove e) s = onPointerMove ar u e s"
| "dispatch ar u PointerLeave s = onPointerLeave s"
| "dispatch ar u (PointerDown e) s = onPointerDown u e s"
| "dispatch ar u (PointerUp newId e) s = onPointerUp u newId e s"
| "dispatch ar u (LayerPointerDown e layerId) s = onLayerPointerDown u e layerId s"
| "dispatch ar u LostPointerCapture s = s"

section \<open>Double arithmetic\<close>

text \<open>The arithmetic the component runs on: IEEE 754 double precision, rounding to
  nearest with ties to the even significand. A double in the binade of \<open>v\<close> is a multiple
  of \<open>ulp v\<close>, with a significand of 53 bits; below \<open>2 powr - 1022\<close> the doubles are the
  multiples of \<open>2 powr - 1074\<close>. The sum or difference of two doubles is the double
  nearest to the exact result. Overflow to an infinity is left out, as the infinities
  are.\<close>

definition roundHalfEven :: "real \<Rightarrow> int" where
  "roundHalfEven q =
     (let f = \<lfloor>q\<rfloor>; d = q - of_int f
      in if d < 1 / 2 then f
         else if d > 1 / 2 then f + 1
         else if even f then f else f + 1)"

definition ulp :: "real \<Rightarrow> real" where
  "ulp v = 2 powr (of_int (max \<lfloor>log 2 \<bar>v\<bar>\<rfloor> (- 1022)) - 52)"

definition toDouble :: "real \<Rightarrow> real" where
  "toDouble v = (if v = 0 then 0 else of_int (roundHalfEven (v / ulp v)) * ulp v)"

definition ieee :: arith where
  "ieee = \<lparr>numAdd = (\<lambda>v w. toDouble (v + w)), numSub = (\<lambda>v w. toDouble (v - w))\<rparr>"

section \<open>The utilities, as the specification describes them\<close>

text \<open>Modelled from the spec: \<^verbatim>\<open>pointerEventToCanvasPoint\<close> of \<^verbatim>\<open>@/lib/utils\<close>, whose code
  is not part of the component. It "subtracts a fixed viewport origin offset and the
  camera pan"; the offset is taken to be zero.\<close>

definition pointerEventToCanvasPoint_spec :: "pointerEvent \<Rightarrow> camera \<Rightarrow> point" where
  "pointerEventToCanvasPoint_spec e cam = \<lparr>x = clientX e - x cam, y = clientY e - y cam\<rparr>"

text \<open>Modelled from the spec: \<^verbatim>\<open>findIntersectingLayersWithRectangle\<close> of \<^verbatim>\<open>@/lib/utils\<close>.
  It "normalizes the two corners into an axis-aligned rectangle, then returns, in the
  given id order, every layer whose bounding box overlaps that rectangle", the overlap
  being "not (a.right < b.left or a.left > b.right or a.bottom < b.top or
  a.top > b.bottom)", and "a zero-area rectangle intersects nothing".\<close>

definition findIntersectingLayersWithRectangle_spec ::
  "layerId list \<Rightarrow> (layerId \<rightharpoonup> layer) \<Rightarrow> point \<Rightarrow> point \<Rightarrow> layerId list" where
  "findIntersectingLayersWithRectangle_spec ids ls a c =
     (let left = min (x a) (x c); top = min (y a) (y c);
          right = max (x a) (x c); bottom = max (y a) (y c)
      in filter
           (\<lambda>i. case ls i of
                   None \<Rightarrow> False
                 | Some l \<Rightarrow>
                     left < right \<and> top < bottom \<and>
                     \<not> (right < x l \<or> left > x l + width l \<or>
                        bottom < y l \<or> top > y l + height l))
           ids)"

text \<open>Modelled from the spec: \<^verbatim>\<open>penPointsToPathLayer\<close> of \<^verbatim>\<open>@/lib/utils\<close>. It "computes
  the bounding box over all sample x/y values, then re-expresses each sample relative
  to that box's top-left corner", and stores the color; it "requires \<ge> 2 points", so
  nothing is said of the empty list.\<close>

definition penPointsToPathLayer_spec :: "sample list \<Rightarrow> color \<Rightarrow> layer" where
  "penPointsToPathLayer_spec pts c =
     (let xs = map fst pts; ys = map (fst \<circ> snd) pts;
          left = fold min (tl xs) (hd xs); right = fold max (tl xs) (hd xs);
          top = fold min (tl ys) (hd ys); bottom = fold max (tl ys) (hd ys)
      in \<lparr>x = left, y = top, width = right - left, height = bottom - top,
          type = Path, fill = c,
          points = Some (map (\<lambda>(px, py, pr). (px - left, py - top, pr)) pts)\<rparr>)"

text \<open>Modelled from the spec: \<^verbatim>\<open>resizeBounds\<close> of \<^verbatim>\<open>@/lib/utils\<close>. It "recomputes a
  bounding box when one of 8 corner/edge handles is dragged to \<open>point\<close>, holding the
  opposite edge(s) fixed", swapping min and max when the dragged edge crosses the
  opposite one. The numbering of the sides (top 1, bottom 2, left 4, right 8, added up
  for a corner) is this model's.\<close>

definition resizeBounds_spec :: "xywh \<Rightarrow> side \<Rightarrow> point \<Rightarrow> xywh" where
  "resizeBounds_spec bounds corner pt =
     (let top = odd corner; bottom = odd (corner div 2);
          left = odd (corner div 4); right = odd (corner div 8);
          b1 = (if left
                then bounds\<lparr>x := min (x pt) (x bounds + width bounds),
                            width := \<bar>x bounds + width bounds - x pt\<bar>\<rparr>
                else bounds);
          b2 = (if right
                then b1\<lparr>x := min (x pt) (x bounds), width := \<bar>x pt - x bounds\<bar>\<rparr>
                else b1);
          b3 = (if top
                then b2\<lparr>y := min (y pt) (y bounds + height bounds),
                        height := \<bar>y bounds + height bounds - y pt\<bar>\<rparr>
                else b2)
      in if bottom
         then b3\<lparr>y := min (y pt) (y bounds), height := \<bar>y pt - y bounds\<bar>\<rparr>
         else b3)"

definition utils_spec :: utils where
  "utils_spec =
     \<lparr>pointerEventToCanvasPoint = pointerEventToCanvasPoint_spec,
      findIntersectingLayersWithRectangle = findIntersectingLayersWithRectangle_spec,
      penPointsToPathLayer = penPointsToPathLayer_spec,
      resizeBounds = resizeBounds_spec\<rparr>"

section \<open>Concrete boards\<close>

text \<open>The component's state at mount: the initial values of its \<^verbatim>\<open>useState\<close> cells,
  an empty document, an empty presence and a running history.\<close>

definition initialState :: state where
  "initialState =
     \<lparr>layers = Map.empty, layerIds = [],
      presence = \<lparr>selection = [], cursor = None, pencilDraft = None, penColor = None\<rparr>,
      canvasState = NoneMode,
      camera = \<lparr>x = 0, y = 0\<rparr>,
      lastUsedColor = \<lparr>r = 0, g = 0, b = 0\<rparr>,
      history = \<lparr>paused = False, undoable = []\<rparr>\<rparr>"

definition box :: "number \<Rightarrow> number \<Rightarrow> number \<Rightarrow> number \<Rightarrow> layer" where
  "box bx by bw bh =
     \<lparr>x = bx, y = by, width = bw, height = bh,
      type = Rectangle, fill = \<lparr>r = 0, g = 0, b = 0\<rparr>, points = None\<rparr>"

text \<open>A document of two rectangles, \<open>a\<close> at (2, 2) and \<open>b\<close> at (50, 50).\<close>

definition twoLayers :: state where
  "twoLayers =
     initialState\<lparr>layers := [''a'' \<mapsto> box 2 2 3 3, ''b'' \<mapsto> box 50 50 3 3],
                  layerIds := [''a'', ''b'']\<rparr>"

text \<open>A document at the capacity ceiling: 100 layers, named by the strings of 0 to 99
  letters \<open>a\<close>.\<close>

definition fullIds :: "layerId list" where
  "fullIds = map (\<lambda>n. replicate n CHR ''a'') [0..<100]"

definition fullBoard :: state where
  "fullBoard =
     initialState\<lparr>layers := (\<lambda>i. if i \<in> set fullIds then Some (box 0 0 100 100) else None),
                  layerIds := fullIds\<rparr>"

definition pointerAt :: "number \<Rightarrow> number \<Rightarrow> pointerEvent" where
  "pointerAt px py = \<lparr>clientX = px, clientY = py, buttons = 1, pressure = 1 / 2\<rparr>"

text \<open>Pencil drafts of one sample and of three samples, in \<open>Pencil\<close> mode.\<close>

definition draftOne :: state where
  "draftOne = initialState\<lparr>presence := (presence initialState)\<lparr>pencilDraft := Some [(5, 5, 1 / 2)]\<rparr>,
     canvasState := Pencil\<rparr>"

definition draftThree :: state where
  "draftThree = initialState\<lparr>presence := (presence initialState)\<lparr>pencilDraft :=
      Some [(5, 5, 1 / 2), (15, 5, 1 / 2), (5, 15, 1 / 2)]\<rparr>,
     canvasState := Pencil\<rparr>"

text \<open>Gestures in progress on the two-rectangle document: a drag and a resize of \<open>a\<close>
  (the handle is bottom-right), and the same with a selection whose first id names no
  stored layer.\<close>

definition dragging :: state where
  "dragging =
     twoLayers\<lparr>presence := (presence twoLayers)\<lparr>selection := [''a'']\<rparr>,
               canvasState := Translating \<lparr>x = 0, y = 0\<rparr>\<rparr>"

definition staleDragging :: state where
  "staleDragging =
     twoLayers\<lparr>presence := (presence twoLayers)\<lparr>selection := [''ghost'', ''a'']\<rparr>,
               canvasState := Translating \<lparr>x = 0, y = 0\<rparr>\<rparr>"

definition resizing :: state where
  "resizing =
     twoLayers\<lparr>presence := (presence twoLayers)\<lparr>selection := [''a'']\<rparr>,
               canvasState := Resizing \<lparr>x = 2, y = 2, width = 3, height = 3\<rparr> 10\<rparr>"

definition staleResizing :: state where
  "staleResizing =
     twoLayers\<lparr>presence := (presence twoLayers)\<lparr>selection := [''ghost'', ''a'']\<rparr>,
               canvasState := Resizing \<lparr>x = 2, y = 2, width = 3, height = 3\<rparr> 10\<rparr>"

text \<open>The drag again, with layer \<open>a\<close> far out at \<open>x = 2 ^ 53\<close>, where the doubles are
  2 apart.\<close>

definition farDragging :: state where
  "farDragging =
     dragging\<lparr>layers := [''a'' \<mapsto> box (2 ^ 53) 2 3 3, ''b'' \<mapsto> box 50 50 3 3]\<rparr>"

text \<open>A marquee gesture on the two-rectangle document, event by event: the pointer goes
  down at (0, 0), moves to (10, 10), and moves once more. Then two boards with \<open>a\<close>
  selected: one idle, one about to insert a rectangle.\<close>

definition pressed :: state where
  "pressed = dispatch ieee utils_spec (PointerDown (pointerAt 0 0)) twoLayers"

definition netted :: state where
  "netted = dispatch ieee utils_spec (PointerMove (pointerAt 10 10)) pressed"

definition netSelected :: state where
  "netSelected = dispatch ieee utils_spec (PointerMove (pointerAt 10 10)) netted"

definition selectedIdle :: state where
  "selectedIdle = twoLayers\<lparr>presence := (presence twoLayers)\<lparr>selection := [''a'']\<rparr>\<rparr>"

definition inserting :: state where
  "inserting = selectedIdle\<lparr>canvasState := Inserting Rectangle\<rparr>"

section \<open>Rounding to a double\<close>

lemma ulp_eval:
  assumes "2 ^ k \<le> \<bar>v\<bar>" and "\<bar>v\<bar> < 2 ^ Suc k"
  shows "ulp v = 2 ^ k / 2 ^ 52"
proof -
  have "(0::real) < 2 ^ k" by simp
  with assms(1) have pos: "0 < \<bar>v\<bar>" by linarith
  have "\<lfloor>log 2 \<bar>v\<bar>\<rfloor> = int k"
    using assms pos by (simp add: floor_log_eq_powr_iff powr_realpow powr_add)
  then have "ulp v = 2 powr (real k - 52)"
    by (simp add: ulp_def)
  also have "\<dots> = 2 powr (real k) / 2 powr 52"
    by (simp add: powr_diff)
  also have "\<dots> = 2 ^ k / 2 ^ 52"
    by (simp add: powr_realpow)
  finally show ?thesis .
qed

lemma toDouble_eval:
  assumes "2 ^ k \<le> \<bar>v\<bar>" and "\<bar>v\<bar> < 2 ^ Suc k"
  shows "toDouble v = of_int (roundHalfEven (v * 2 ^ 52 / 2 ^ k)) * 2 ^ k / 2 ^ 52"
proof -
  have "(0::real) < 2 ^ k" by simp
  with assms(1) have "0 < \<bar>v\<bar>" by linarith
  then have "v \<noteq> 0" by auto
  then show ?thesis
    by (simp add: toDouble_def ulp_eval [OF assms] field_simps)
qed

lemma roundHalfEven_int: "roundHalfEven (of_int m) = m"
  by (simp add: roundHalfEven_def)

text \<open>An integer below \<open>2 ^ 53\<close> in absolute value is a double: rounding leaves it as it
  is. So sums and differences of small integers are exact.\<close>

lemma toDouble_int:
  assumes "\<bar>n\<bar> < 2 ^ 53"
  shows "toDouble (of_int n) = of_int n"
proof (cases "n = 0")
  case True
  then show ?thesis by (simp add: toDouble_def)
next
  case False
  then have "1 \<le> nat \<bar>n\<bar>" by simp
  then obtain k where k: "2 ^ k \<le> nat \<bar>n\<bar>" "nat \<bar>n\<bar> < 2 ^ (k + 1)"
    using ex_power_ivl1 [of 2 "nat \<bar>n\<bar>"] by auto
  have "nat \<bar>n\<bar> < 2 ^ 53"
    using assms by (simp add: nat_less_iff)
  with k(1) have "(2::nat) ^ k < 2 ^ 53"
    by (rule le_less_trans)
  then have "k < 53"
    by (rule power_less_imp_less_exp [rotated]) simp
  then have k52: "k \<le> 52"
    by simp
  have abs_n: "\<bar>real_of_int n\<bar> = real (nat \<bar>n\<bar>)"
    by simp
  have lo: "2 ^ k \<le> \<bar>real_of_int n\<bar>"
  proof -
    have "real (2 ^ k) \<le> real (nat \<bar>n\<bar>)"
      using k(1) by (simp only: of_nat_le_iff)
    then show ?thesis
      by (simp only: abs_n) simp
  qed
  have hi: "\<bar>real_of_int n\<bar> < 2 ^ Suc k"
  proof -
    have "real (nat \<bar>n\<bar>) < real (2 ^ (k + 1))"
      using k(2) by (simp only: of_nat_less_iff)
    then show ?thesis
      by (simp only: abs_n) simp
  qed
  have split: "(2::real) ^ 52 = 2 ^ (52 - k) * 2 ^ k"
    using k52 by (simp add: power_add [symmetric])
  have "real_of_int n * 2 ^ 52 / 2 ^ k = of_int (n * 2 ^ (52 - k))"
    by (subst split) simp
  then have "toDouble (of_int n) = of_int (n * 2 ^ (52 - k)) * 2 ^ k / 2 ^ 52"
    by (simp only: toDouble_eval [OF lo hi] roundHalfEven_int)
  also have "\<dots> = of_int n"
    by (subst split) simp
  finally show ?thesis .
qed

lemma toDouble_numeral: "numeral w < (2::int) ^ 53 \<Longrightarrow> toDouble (numeral w) = numeral w"
  using toDouble_int [of "numeral w"] by simp

lemma toDouble_0: "toDouble 0 = 0"
  by (simp add: toDouble_def)

lemma toDouble_1: "toDouble 1 = 1"
  using toDouble_int [of 1] by simp

lemmas toDouble_small = toDouble_numeral toDouble_0 toDouble_1

text \<open>Where the exact result is not a double it is rounded, a tie going to the even
  significand: \<open>5 + 1 / 2 ^ 51\<close> lies half-way between the doubles \<open>5\<close> and
  \<open>5 + 1 / 2 ^ 50\<close>, and \<open>2 ^ 53 + 1\<close> half-way between \<open>2 ^ 53\<close> and \<open>2 ^ 53 + 2\<close>.\<close>

lemma toDouble_tie_5: "toDouble (2 + (3 + 1 / 2 ^ 51)) = 5"
  by (subst toDouble_eval [of 2]) (simp_all add: roundHalfEven_def)

lemma toDouble_tie_2_53: "toDouble (2 ^ 53 + 1) = 2 ^ 53"
  by (subst toDouble_eval [of 53]) (simp_all add: roundHalfEven_def)

lemma toDouble_3_eps: "toDouble (3 + 1 / 2 ^ 51) = 3 + 1 / 2 ^ 51"
  by (subst toDouble_eval [of 1]) (simp_all add: roundHalfEven_def)

section \<open>Inserting a shape\<close>

lemma size_fullBoard: "size_layers (layers fullBoard) = 100"
proof -
  have "inj_on (\<lambda>n. replicate n CHR ''a'') {0..<100::nat}"
    by (rule inj_onI) (metis length_replicate)
  then have "card ((\<lambda>n. replicate n CHR ''a'') ` {0..<100::nat}) = 100"
    by (simp add: card_image)
  moreover have "dom (layers fullBoard) = (\<lambda>n. replicate n CHR ''a'') ` {0..<100::nat}"
    by (auto simp: fullBoard_def fullIds_def dom_def)
  ultimately show ?thesis by (simp add: size_layers_def)
qed

lemma size_initialState: "size_layers (layers initialState) = 0"
  by (simp add: initialState_def size_layers_def)

text \<open>
  Claim C1. While the document holds fewer than 100 layers, \<open>insertLayer\<close> stores under
  the id drawn from \<^verbatim>\<open>nanoid()\<close> a layer of the requested variant at the given position,
  100 wide and 100 high, filled with the last-used color; it appends the id to the end
  of the order, sets the selection to exactly that id through an update entered in the
  history, and resets the mode to \<open>NoneMode\<close>. Nothing else of the state changes. When
  the id is fresh, the layers stored before are untouched and the count grows by one.
\<close>

theorem insertLayer_below_cap:
  assumes "size_layers (layers s) < MAX_LAYERS"
  shows "insertLayer newId layerType position s =
           s\<lparr>layers := (layers s)(newId \<mapsto>
                \<lparr>x = x position, y = y position, width = 100, height = 100,
                 type = layerType, fill = lastUsedColor s, points = None\<rparr>),
             layerIds := layerIds s @ [newId],
             presence := (presence s)\<lparr>selection := [newId]\<rparr>,
             canvasState := NoneMode,
             history := (history s)\<lparr>undoable := undoable (history s) @ [[Selection [newId]]]\<rparr>\<rparr>
         \<and> (newId \<notin> dom (layers s) \<and> finite (dom (layers s)) \<longrightarrow>
              size_layers (layers (insertLayer newId layerType position s))
                = Suc (size_layers (layers s))
              \<and> (\<forall>i \<in> dom (layers s).
                    layers (insertLayer newId layerType position s) i = layers s i))"
  using assms
  by (auto simp add: insertLayer_def setMyPresence_def setCanvasState_def Let_def
        size_layers_def)

theorem insertLayer_below_cap_witness:
  "size_layers (layers initialState) < MAX_LAYERS \<and>
   ''n1'' \<notin> dom (layers initialState) \<and> finite (dom (layers initialState)) \<and>
   insertLayer ''n1'' Rectangle \<lparr>x = 40, y = 40\<rparr> initialState =
     initialState\<lparr>layers := [''n1'' \<mapsto> box 40 40 100 100],
                  layerIds := [''n1''],
                  presence := \<lparr>selection = [''n1''], cursor = None,
                               pencilDraft = None, penColor = None\<rparr>,
                  history := \<lparr>paused = False, undoable = [[Selection [''n1'']]]\<rparr>\<rparr> \<and>
   size_layers (layers (insertLayer ''n1'' Rectangle \<lparr>x = 40, y = 40\<rparr> initialState)) = 1"
proof -
  have small: "size_layers (layers initialState) < MAX_LAYERS"
    by (simp add: size_initialState MAX_LAYERS_def)
  have fresh: "''n1'' \<notin> dom (layers initialState) \<and> finite (dom (layers initialState))"
    by (simp add: initialState_def)
  show ?thesis
    using small fresh
      insertLayer_below_cap [OF small, of "''n1''" Rectangle "\<lparr>x = 40, y = 40\<rparr>"]
    by (simp add: size_initialState) (simp add: initialState_def box_def size_layers_def)
qed

text \<open>
  Claim C2. While the document holds 100 layers or more, \<open>insertLayer\<close> returns the
  state it was given: the layers and their count, the order, the selection and the
  mode are all unchanged.
\<close>

theorem insertLayer_at_cap:
  assumes "size_layers (layers s) \<ge> MAX_LAYERS"
  shows "insertLayer newId layerType position s = s"
  using assms by (simp add: insertLayer_def)

theorem insertLayer_at_cap_witness:
  "size_layers (layers fullBoard) \<ge> MAX_LAYERS \<and>
   insertLayer ''n1'' Rectangle \<lparr>x = 40, y = 40\<rparr> fullBoard = fullBoard \<and>
   size_layers (layers (insertLayer ''n1'' Rectangle \<lparr>x = 40, y = 40\<rparr> fullBoard)) = 100 \<and>
   layerIds (insertLayer ''n1'' Rectangle \<lparr>x = 40, y = 40\<rparr> fullBoard) = fullIds"
proof -
  have full: "size_layers (layers fullBoard) \<ge> MAX_LAYERS"
    by (simp add: size_fullBoard MAX_LAYERS_def)
  show ?thesis
    using full insertLayer_at_cap [OF full, of "''n1''" Rectangle "\<lparr>x = 40, y = 40\<rparr>"]
    by (simp add: size_fullBoard) (simp add: fullBoard_def)
qed

section \<open>Committing a pencil stroke\<close>

text \<open>
  Claim C3. When the pencil draft is \<^verbatim>\<open>null\<close> or has fewer than 2 samples, or the
  document holds 100 layers or more, \<open>insertPath\<close> inserts nothing and only sets the
  draft to \<^verbatim>\<open>null\<close>. Otherwise it converts the draft with \<open>penPointsToPathLayer\<close> and the
  last-used color, stores the result under the drawn id, appends that id to the order,
  clears the draft and sets the mode to \<open>Pencil\<close>; the selection is unchanged.
\<close>

theorem insertPath_cases:
  "(pencilDraft (presence s) = None
      \<or> (\<exists>d. pencilDraft (presence s) = Some d \<and> length d < 2)
      \<or> size_layers (layers s) \<ge> MAX_LAYERS
    \<longrightarrow> insertPath u newId s = s\<lparr>presence := (presence s)\<lparr>pencilDraft := None\<rparr>\<rparr>)
   \<and> (pencilDraft (presence s) = Some draft \<and> length draft \<ge> 2
        \<and> size_layers (layers s) < MAX_LAYERS
    \<longrightarrow> insertPath u newId s =
          s\<lparr>layers := (layers s)(newId \<mapsto> penPointsToPathLayer u draft (lastUsedColor s)),
            layerIds := layerIds s @ [newId],
            presence := (presence s)\<lparr>pencilDraft := None\<rparr>,
            canvasState := Pencil\<rparr>)"
  by (auto simp add: insertPath_def setMyPresence_def setCanvasState_def Let_def
        split: option.splits)

theorem insertPath_cases_witness:
  "(\<exists>d. pencilDraft (presence draftOne) = Some d \<and> length d < 2) \<and>
   insertPath utils_spec ''n1'' draftOne = initialState\<lparr>canvasState := Pencil\<rparr> \<and>
   pencilDraft (presence draftThree) = Some [(5, 5, 1 / 2), (15, 5, 1 / 2), (5, 15, 1 / 2)] \<and>
   length [(5 :: number, 5 :: number, 1 / 2 :: number), (15, 5, 1 / 2), (5, 15, 1 / 2)] \<ge> 2 \<and>
   size_layers (layers draftThree) < MAX_LAYERS \<and>
   insertPath utils_spec ''n1'' draftThree =
     initialState\<lparr>layers := [''n1'' \<mapsto>
                      \<lparr>x = 5, y = 5, width = 10, height = 10, type = Path,
                       fill = \<lparr>r = 0, g = 0, b = 0\<rparr>,
                       points = Some [(0, 0, 1 / 2), (10, 0, 1 / 2), (0, 10, 1 / 2)]\<rparr>],
                  layerIds := [''n1''],
                  canvasState := Pencil\<rparr>"
proof -
  have one: "\<exists>d. pencilDraft (presence draftOne) = Some d \<and> length d < 2"
    by (simp add: draftOne_def initialState_def)
  have three: "pencilDraft (presence draftThree) = Some [(5, 5, 1 / 2), (15, 5, 1 / 2), (5, 15, 1 / 2)]"
    by (simp add: draftThree_def initialState_def)
  have small: "size_layers (layers draftThree) < MAX_LAYERS"
    by (simp add: draftThree_def initialState_def size_layers_def MAX_LAYERS_def)
  show ?thesis
    using one three small
      insertPath_cases [of draftOne utils_spec "''n1''" "[]"]
      insertPath_cases [of draftThree utils_spec "''n1''" "[(5, 5, 1 / 2), (15, 5, 1 / 2), (5, 15, 1 / 2)]"]
    by (simp add: draftOne_def draftThree_def initialState_def utils_spec_def
          penPointsToPathLayer_spec_def)
qed

section \<open>Dragging the selection\<close>

lemma fold_translateLayer:
  "fold (translateLayer ar off) sel ls i =
     map_option
       (\<lambda>l. l\<lparr>x := ((\<lambda>v. numAdd ar v (x off)) ^^ count_list sel i) (x l),
               y := ((\<lambda>v. numAdd ar v (y off)) ^^ count_list sel i) (y l)\<rparr>)
       (ls i)"
proof (induction sel arbitrary: ls)
  case Nil
  show ?case by (cases "ls i") simp_all
next
  case (Cons k sel)
  have "fold (translateLayer ar off) (k # sel) ls i =
          fold (translateLayer ar off) sel (translateLayer ar off k ls) i"
    by simp
  also have "\<dots> =
      map_option
        (\<lambda>l. l\<lparr>x := ((\<lambda>v. numAdd ar v (x off)) ^^ count_list sel i) (x l),
                y := ((\<lambda>v. numAdd ar v (y off)) ^^ count_list sel i) (y l)\<rparr>)
        (translateLayer ar off k ls i)"
    by (rule Cons.IH)
  also have "\<dots> =
      map_option
        (\<lambda>l. l\<lparr>x := ((\<lambda>v. numAdd ar v (x off)) ^^ count_list (k # sel) i) (x l),
                y := ((\<lambda>v. numAdd ar v (y off)) ^^ count_list (k # sel) i) (y l)\<rparr>)
        (ls i)"
  proof -
    have sw: "((\<lambda>v. numAdd ar v d) ^^ n) (numAdd ar w d) =
        numAdd ar (((\<lambda>v. numAdd ar v d) ^^ n) w) d" for d n w
      using funpow_swap1 [of "\<lambda>v. numAdd ar v d" n w] by simp
    show ?thesis
      by (cases "ls k") (auto simp add: translateLayer_def sw)
  qed
  finally show ?case .
qed

lemma count_list_distinct: "distinct xs \<Longrightarrow> i \<in> set xs \<Longrightarrow> count_list xs i = 1"
  by (induction xs) auto

lemma translateSelectedLayers_layers:
  "canvasState s = Translating cur \<Longrightarrow>
   translateSelectedLayers ar pt s =
     s\<lparr>layers := (\<lambda>i. map_option
          (\<lambda>l. l\<lparr>x := ((\<lambda>v. numAdd ar v (numSub ar (x pt) (x cur)))
                          ^^ count_list (selection (presence s)) i) (x l),
                  y := ((\<lambda>v. numAdd ar v (numSub ar (y pt) (y cur)))
                          ^^ count_list (selection (presence s)) i) (y l)\<rparr>)
          (layers s i)),
       canvasState := Translating pt\<rparr>"
  by (simp add: translateSelectedLayers_def Let_def setCanvasState_def fold_translateLayer
        fun_eq_iff)

lemma translateSelectedLayers_other_mode:
  "(\<forall>cur. canvasState s \<noteq> Translating cur) \<Longrightarrow> translateSelectedLayers ar pt s = s"
  by (cases "canvasState s") (simp_all add: translateSelectedLayers_def)

lemma translateSelectedLayers_selected:
  assumes "canvasState s = Translating cur"
    and "distinct (selection (presence s))"
    and "i \<in> set (selection (presence s))"
    and "layers s i = Some l"
  shows "layers (translateSelectedLayers ar pt s) i =
           Some (l\<lparr>x := numAdd ar (x l) (numSub ar (x pt) (x cur)),
                   y := numAdd ar (y l) (numSub ar (y pt) (y cur))\<rparr>)"
  using assms(2-4)
  by (simp add: translateSelectedLayers_layers [OF assms(1)] count_list_distinct)

text \<open>
  Claim C4, as the code has it. \<open>translateSelectedLayers\<close> returns the state unchanged
  unless the mode is \<open>Translating\<close>. In that mode the delta is the difference between the
  new point and the point the mode recorded, and every stored layer gets the delta
  added to its \<open>x\<close> and \<open>y\<close>, once for each occurrence of its id in the selection; the
  difference and the sums are those the handler computes, each rounded to a double. No
  other field of a layer changes: a selected layer whose id occurs once has \<open>x\<close> and \<open>y\<close>
  moved by the computed delta, a layer outside the selection is untouched, and no key of
  the document is added or lost. The mode then records the new point, so that the next
  call adds the difference between its point and this one, not the offset from where
  the gesture began.
\<close>

theorem translateSelectedLayers_incremental:
  "(canvasState s = Translating cur \<longrightarrow>
      translateSelectedLayers ar pt s =
        s\<lparr>layers := (\<lambda>i. map_option
             (\<lambda>l. l\<lparr>x := ((\<lambda>v. numAdd ar v (numSub ar (x pt) (x cur)))
                             ^^ count_list (selection (presence s)) i) (x l),
                     y := ((\<lambda>v. numAdd ar v (numSub ar (y pt) (y cur)))
                             ^^ count_list (selection (presence s)) i) (y l)\<rparr>)
             (layers s i)),
          canvasState := Translating pt\<rparr>
      \<and> (distinct (selection (presence s)) \<longrightarrow>
           (\<forall>i \<in> set (selection (presence s)). \<forall>l. layers s i = Some l \<longrightarrow>
              layers (translateSelectedLayers ar pt s) i =
                Some (l\<lparr>x := numAdd ar (x l) (numSub ar (x pt) (x cur)),
                        y := numAdd ar (y l) (numSub ar (y pt) (y cur))\<rparr>)
              \<and> layers (translateSelectedLayers ar pt2 (translateSelectedLayers ar pt s)) i =
                Some (l\<lparr>x := numAdd ar (numAdd ar (x l) (numSub ar (x pt) (x cur)))
                                 (numSub ar (x pt2) (x pt)),
                        y := numAdd ar (numAdd ar (y l) (numSub ar (y pt) (y cur)))
                                 (numSub ar (y pt2) (y pt))\<rparr>)))
      \<and> (\<forall>i. i \<notin> set (selection (presence s)) \<longrightarrow>
             layers (translateSelectedLayers ar pt s) i = layers s i)
      \<and> (\<forall>i l l'. layers s i = Some l \<and> layers (translateSelectedLayers ar pt s) i = Some l'
             \<longrightarrow> l' = l\<lparr>x := x l', y := y l'\<rparr>)
      \<and> dom (layers (translateSelectedLayers ar pt s)) = dom (layers s))
   \<and> ((\<forall>c. canvasState s \<noteq> Translating c) \<longrightarrow> translateSelectedLayers ar pt s = s)"
proof (intro conjI impI)
  assume m: "canvasState s = Translating cur"
  show "translateSelectedLayers ar pt s =
        s\<lparr>layers := (\<lambda>i. map_option
             (\<lambda>l. l\<lparr>x := ((\<lambda>v. numAdd ar v (numSub ar (x pt) (x cur)))
                             ^^ count_list (selection (presence s)) i) (x l),
                     y := ((\<lambda>v. numAdd ar v (numSub ar (y pt) (y cur)))
                             ^^ count_list (selection (presence s)) i) (y l)\<rparr>)
             (layers s i)),
          canvasState := Translating pt\<rparr>"
    by (rule translateSelectedLayers_layers [OF m])
  show "\<forall>i. i \<notin> set (selection (presence s)) \<longrightarrow>
             layers (translateSelectedLayers ar pt s) i = layers s i"
    by (auto simp add: translateSelectedLayers_layers [OF m] option.map_ident
          map_option_case split: option.splits)
  show "\<forall>i l l'. layers s i = Some l \<and> layers (translateSelectedLayers ar pt s) i = Some l'
             \<longrightarrow> l' = l\<lparr>x := x l', y := y l'\<rparr>"
    by (auto simp add: translateSelectedLayers_layers [OF m])
  show "dom (layers (translateSelectedLayers ar pt s)) = dom (layers s)"
    by (auto simp add: translateSelectedLayers_layers [OF m] dom_def)
next
  assume m: "canvasState s = Translating cur" and d: "distinct (selection (presence s))"
  let ?s' = "translateSelectedLayers ar pt s"
  have m': "canvasState ?s' = Translating pt"
    and sel': "selection (presence ?s') = selection (presence s)"
    by (simp_all add: translateSelectedLayers_layers [OF m])
  show "\<forall>i \<in> set (selection (presence s)). \<forall>l. layers s i = Some l \<longrightarrow>
              layers ?s' i =
                Some (l\<lparr>x := numAdd ar (x l) (numSub ar (x pt) (x cur)),
                        y := numAdd ar (y l) (numSub ar (y pt) (y cur))\<rparr>)
              \<and> layers (translateSelectedLayers ar pt2 ?s') i =
                Some (l\<lparr>x := numAdd ar (numAdd ar (x l) (numSub ar (x pt) (x cur)))
                                 (numSub ar (x pt2) (x pt)),
                        y := numAdd ar (numAdd ar (y l) (numSub ar (y pt) (y cur)))
                                 (numSub ar (y pt2) (y pt))\<rparr>)"
  proof (intro ballI allI impI)
    fix i l
    assume i: "i \<in> set (selection (presence s))" and l: "layers s i = Some l"
    have first: "layers ?s' i =
        Some (l\<lparr>x := numAdd ar (x l) (numSub ar (x pt) (x cur)),
                y := numAdd ar (y l) (numSub ar (y pt) (y cur))\<rparr>)"
      by (rule translateSelectedLayers_selected [OF m d i l])
    have "layers (translateSelectedLayers ar pt2 ?s') i =
        Some ((l\<lparr>x := numAdd ar (x l) (numSub ar (x pt) (x cur)),
                 y := numAdd ar (y l) (numSub ar (y pt) (y cur))\<rparr>)
               \<lparr>x := numAdd ar (x (l\<lparr>x := numAdd ar (x l) (numSub ar (x pt) (x cur)),
                                       y := numAdd ar (y l) (numSub ar (y pt) (y cur))\<rparr>))
                           (numSub ar (x pt2) (x pt)),
                y := numAdd ar (y (l\<lparr>x := numAdd ar (x l) (numSub ar (x pt) (x cur)),
                                       y := numAdd ar (y l) (numSub ar (y pt) (y cur))\<rparr>))
                           (numSub ar (y pt2) (y pt))\<rparr>)"
      using d i by (intro translateSelectedLayers_selected [OF m' _ _ first]) (simp_all add: sel')
    then have second: "layers (translateSelectedLayers ar pt2 ?s') i =
        Some (l\<lparr>x := numAdd ar (numAdd ar (x l) (numSub ar (x pt) (x cur)))
                         (numSub ar (x pt2) (x pt)),
                y := numAdd ar (numAdd ar (y l) (numSub ar (y pt) (y cur)))
                         (numSub ar (y pt2) (y pt))\<rparr>)"
      by simp
    from first second
    show "layers ?s' i =
                Some (l\<lparr>x := numAdd ar (x l) (numSub ar (x pt) (x cur)),
                        y := numAdd ar (y l) (numSub ar (y pt) (y cur))\<rparr>)
              \<and> layers (translateSelectedLayers ar pt2 ?s') i =
                Some (l\<lparr>x := numAdd ar (numAdd ar (x l) (numSub ar (x pt) (x cur)))
                                 (numSub ar (x pt2) (x pt)),
                        y := numAdd ar (numAdd ar (y l) (numSub ar (y pt) (y cur)))
                                 (numSub ar (y pt2) (y pt))\<rparr>)"
      by (rule conjI)
  qed
next
  assume "\<forall>c. canvasState s \<noteq> Translating c"
  then show "translateSelectedLayers ar pt s = s"
    by (rule translateSelectedLayers_other_mode)
qed

theorem translateSelectedLayers_incremental_witness:
  "canvasState dragging = Translating \<lparr>x = 0, y = 0\<rparr> \<and>
   distinct (selection (presence dragging)) \<and>
   ''a'' \<in> set (selection (presence dragging)) \<and>
   layers dragging ''a'' = Some (box 2 2 3 3) \<and>
   ''b'' \<notin> set (selection (presence dragging)) \<and>
   translateSelectedLayers ieee \<lparr>x = 3, y = 4\<rparr> dragging =
     dragging\<lparr>layers := [''a'' \<mapsto> box 5 6 3 3, ''b'' \<mapsto> box 50 50 3 3],
              canvasState := Translating \<lparr>x = 3, y = 4\<rparr>\<rparr> \<and>
   layers (translateSelectedLayers ieee \<lparr>x = 3, y = 4\<rparr> dragging) ''a'' = Some (box 5 6 3 3) \<and>
   layers (translateSelectedLayers ieee \<lparr>x = 3, y = 4\<rparr> dragging) ''b'' = layers dragging ''b'' \<and>
   layers (translateSelectedLayers ieee \<lparr>x = 7, y = 7\<rparr>
             (translateSelectedLayers ieee \<lparr>x = 3, y = 4\<rparr> dragging)) ''a''
     = Some (box 9 9 3 3) \<and>
   (\<forall>c. canvasState twoLayers \<noteq> Translating c) \<and>
   translateSelectedLayers ieee \<lparr>x = 3, y = 4\<rparr> twoLayers = twoLayers"
proof -
  have mode: "canvasState dragging = Translating \<lparr>x = 0, y = 0\<rparr>"
    by (simp add: dragging_def)
  have sel: "distinct (selection (presence dragging))"
    "''a'' \<in> set (selection (presence dragging))"
    "''b'' \<notin> set (selection (presence dragging))"
    by (simp_all add: dragging_def)
  have a: "layers dragging ''a'' = Some (box 2 2 3 3)"
    by (simp add: dragging_def twoLayers_def)
  have idle: "\<forall>c. canvasState twoLayers \<noteq> Translating c"
    by (simp add: twoLayers_def initialState_def)
  note drag = translateSelectedLayers_incremental
    [of dragging "\<lparr>x = 0, y = 0\<rparr>" ieee "\<lparr>x = 3, y = 4\<rparr>" "\<lparr>x = 7, y = 7\<rparr>"]
  note rest = translateSelectedLayers_incremental
    [of twoLayers "\<lparr>x = 0, y = 0\<rparr>" ieee "\<lparr>x = 3, y = 4\<rparr>" "\<lparr>x = 7, y = 7\<rparr>"]
  have "translateSelectedLayers ieee \<lparr>x = 3, y = 4\<rparr> dragging =
      dragging\<lparr>layers := (\<lambda>i. map_option
          (\<lambda>l. l\<lparr>x := ((\<lambda>v. numAdd ieee v (numSub ieee (x \<lparr>x = 3, y = 4\<rparr>) (x \<lparr>x = 0, y = 0\<rparr>)))
                          ^^ count_list (selection (presence dragging)) i) (x l),
                  y := ((\<lambda>v. numAdd ieee v (numSub ieee (y \<lparr>x = 3, y = 4\<rparr>) (y \<lparr>x = 0, y = 0\<rparr>)))
                          ^^ count_list (selection (presence dragging)) i) (y l)\<rparr>)
          (layers dragging i)),
        canvasState := Translating \<lparr>x = 3, y = 4\<rparr>\<rparr>"
    using drag mode by blast
  also have "\<dots> = dragging\<lparr>layers := [''a'' \<mapsto> box 5 6 3 3, ''b'' \<mapsto> box 50 50 3 3],
              canvasState := Translating \<lparr>x = 3, y = 4\<rparr>\<rparr>"
    by (auto simp add: dragging_def twoLayers_def box_def ieee_def toDouble_small fun_eq_iff)
  finally have moved: "translateSelectedLayers ieee \<lparr>x = 3, y = 4\<rparr> dragging =
     dragging\<lparr>layers := [''a'' \<mapsto> box 5 6 3 3, ''b'' \<mapsto> box 50 50 3 3],
              canvasState := Translating \<lparr>x = 3, y = 4\<rparr>\<rparr>" .
  have la: "layers (translateSelectedLayers ieee \<lparr>x = 3, y = 4\<rparr> dragging) ''a''
      = Some (box 5 6 3 3)"
    by (simp add: moved)
  have lb: "layers (translateSelectedLayers ieee \<lparr>x = 3, y = 4\<rparr> dragging) ''b''
      = layers dragging ''b''"
    using drag mode sel(3) by blast
  have "layers (translateSelectedLayers ieee \<lparr>x = 7, y = 7\<rparr>
             (translateSelectedLayers ieee \<lparr>x = 3, y = 4\<rparr> dragging)) ''a'' =
      Some ((box 2 2 3 3)
        \<lparr>x := numAdd ieee (numAdd ieee (x (box 2 2 3 3))
                  (numSub ieee (x \<lparr>x = 3, y = 4\<rparr>) (x \<lparr>x = 0, y = 0\<rparr>)))
                (numSub ieee (x \<lparr>x = 7, y = 7\<rparr>) (x \<lparr>x = 3, y = 4\<rparr>)),
         y := numAdd ieee (numAdd ieee (y (box 2 2 3 3))
                  (numSub ieee (y \<lparr>x = 3, y = 4\<rparr>) (y \<lparr>x = 0, y = 0\<rparr>)))
                (numSub ieee (y \<lparr>x = 7, y = 7\<rparr>) (y \<lparr>x = 3, y = 4\<rparr>))\<rparr>)"
    using drag mode sel(1,2) a by blast
  then have twice: "layers (translateSelectedLayers ieee \<lparr>x = 7, y = 7\<rparr>
             (translateSelectedLayers ieee \<lparr>x = 3, y = 4\<rparr> dragging)) ''a''
     = Some (box 9 9 3 3)"
    by (simp add: box_def ieee_def toDouble_small)
  have noop: "translateSelectedLayers ieee \<lparr>x = 3, y = 4\<rparr> twoLayers = twoLayers"
    using rest idle by blast
  show ?thesis
    using mode sel a idle moved la lb twice noop by blast
qed

text \<open>
  Claim C4 as stated fails where the sum is not a double: layer \<open>a\<close> at \<open>x = 2 ^ 53\<close>,
  dragged from (0, 0) to (1, 0), gets the delta 1 added to its \<open>x\<close> and stays at
  \<open>x = 2 ^ 53\<close>, since \<open>2 ^ 53 + 1\<close> rounds back to \<open>2 ^ 53\<close>.
\<close>

theorem far_layer_keeps_its_place:
  "canvasState farDragging = Translating \<lparr>x = 0, y = 0\<rparr> \<and>
   selection (presence farDragging) = [''a''] \<and>
   layers farDragging ''a'' = Some (box (2 ^ 53) 2 3 3) \<and>
   x \<lparr>x = 1, y = 0\<rparr> - x \<lparr>x = 0, y = 0\<rparr> = (1::real) \<and>
   layers (translateSelectedLayers ieee \<lparr>x = 1, y = 0\<rparr> farDragging) ''a''
     = Some (box (2 ^ 53) 2 3 3) \<and>
   layers (translateSelectedLayers ieee \<lparr>x = 1, y = 0\<rparr> farDragging) ''a''
     \<noteq> Some (box (2 ^ 53 + 1) 2 3 3)"
proof -
  have mode: "canvasState farDragging = Translating \<lparr>x = 0, y = 0\<rparr>"
    and sel: "selection (presence farDragging) = [''a'']"
    and a: "layers farDragging ''a'' = Some (box (2 ^ 53) 2 3 3)"
    by (simp_all add: farDragging_def dragging_def)
  have "layers (translateSelectedLayers ieee \<lparr>x = 1, y = 0\<rparr> farDragging) ''a'' =
      Some ((box (2 ^ 53) 2 3 3)
        \<lparr>x := numAdd ieee (x (box (2 ^ 53) 2 3 3)) (numSub ieee (x \<lparr>x = 1, y = 0\<rparr>) (x \<lparr>x = 0, y = 0\<rparr>)),
         y := numAdd ieee (y (box (2 ^ 53) 2 3 3)) (numSub ieee (y \<lparr>x = 1, y = 0\<rparr>) (y \<lparr>x = 0, y = 0\<rparr>))\<rparr>)"
    by (rule translateSelectedLayers_selected [OF mode _ _ a]) (simp_all add: sel)
  also have "\<dots> = Some (box (2 ^ 53) 2 3 3)"
    by (simp add: box_def ieee_def toDouble_small toDouble_tie_2_53 [simplified])
  finally have kept: "layers (translateSelectedLayers ieee \<lparr>x = 1, y = 0\<rparr> farDragging) ''a''
      = Some (box (2 ^ 53) 2 3 3)" .
  have "box (2 ^ 53) 2 3 3 \<noteq> box (2 ^ 53 + 1) 2 3 3"
    by (simp add: box_def)
  then show ?thesis
    using mode sel a kept by simp
qed

section \<open>Resizing the selected layer\<close>

text \<open>
  Claim C5. \<open>resizeSelectedLayer\<close> returns the state unchanged unless the mode is
  \<open>Resizing\<close>. In that mode it computes the bounds with \<open>resizeBounds\<close> from the mode's
  \<open>initialBounds\<close> and \<open>corner\<close> and the point, and writes their \<open>x\<close>, \<open>y\<close>, \<open>width\<close> and
  \<open>height\<close> onto the layer named first in the selection; every other layer, and every
  other field of that layer, stays as it was.
\<close>

theorem resizeSelectedLayer_single:
  "(canvasState s = Resizing initialBounds corner
      \<and> selection (presence s) = i # others \<and> layers s i = Some l \<longrightarrow>
      resizeSelectedLayer u pt s =
        s\<lparr>layers := (layers s)(i \<mapsto>
             l\<lparr>x := x (resizeBounds u initialBounds corner pt),
               y := y (resizeBounds u initialBounds corner pt),
               width := width (resizeBounds u initialBounds corner pt),
               height := height (resizeBounds u initialBounds corner pt)\<rparr>)\<rparr>)
   \<and> ((\<forall>c k. canvasState s \<noteq> Resizing c k) \<longrightarrow> resizeSelectedLayer u pt s = s)"
proof (intro conjI impI)
  assume "\<forall>c k. canvasState s \<noteq> Resizing c k"
  then show "resizeSelectedLayer u pt s = s"
    by (cases "canvasState s") (simp_all add: resizeSelectedLayer_def)
qed (simp add: resizeSelectedLayer_def Let_def)

theorem resizeSelectedLayer_single_witness:
  "canvasState resizing = Resizing \<lparr>x = 2, y = 2, width = 3, height = 3\<rparr> 10 \<and>
   selection (presence resizing) = ''a'' # [] \<and>
   layers resizing ''a'' = Some (box 2 2 3 3) \<and>
   resizeSelectedLayer utils_spec \<lparr>x = 12, y = 9\<rparr> resizing =
     resizing\<lparr>layers := [''a'' \<mapsto> box 2 2 10 7, ''b'' \<mapsto> box 50 50 3 3]\<rparr> \<and>
   (\<forall>c k. canvasState twoLayers \<noteq> Resizing c k) \<and>
   resizeSelectedLayer utils_spec \<lparr>x = 12, y = 9\<rparr> twoLayers = twoLayers"
proof -
  have mode: "canvasState resizing = Resizing \<lparr>x = 2, y = 2, width = 3, height = 3\<rparr> 10"
    and sel: "selection (presence resizing) = ''a'' # []"
    and a: "layers resizing ''a'' = Some (box 2 2 3 3)"
    by (simp_all add: resizing_def twoLayers_def)
  have idle: "\<forall>c k. canvasState twoLayers \<noteq> Resizing c k"
    by (simp add: twoLayers_def initialState_def)
  show ?thesis
    using mode sel a idle
      resizeSelectedLayer_single [of resizing "\<lparr>x = 2, y = 2, width = 3, height = 3\<rparr>" 10
        "''a''" "[]" "box 2 2 3 3" utils_spec "\<lparr>x = 12, y = 9\<rparr>"]
      resizeSelectedLayer_single [of twoLayers "\<lparr>x = 2, y = 2, width = 3, height = 3\<rparr>" 10
        "''a''" "[]" "box 2 2 3 3" utils_spec "\<lparr>x = 12, y = 9\<rparr>"]
    by (simp add: utils_spec_def resizeBounds_spec_def)
       (auto simp add: resizing_def twoLayers_def box_def fun_eq_iff)
qed

section \<open>Selected ids without a layer\<close>

lemma count_list_removeAll:
  "count_list (removeAll i xs) j = (if j = i then 0 else count_list xs j)"
  by (induction xs) auto

text \<open>
  Claim C10. An id in the selection that names no stored layer is skipped by
  \<open>translateSelectedLayers\<close>: the layers after the call are those the call produces with
  that id removed from the selection, the id still names no layer and no key is added
  or lost. \<open>resizeSelectedLayer\<close>, which reads the first id of the selection, returns
  the state unchanged when that id names no layer. Both are total: there is no error to
  return.
\<close>

theorem missing_layer_skipped:
  "layers s i = None \<longrightarrow>
     layers (translateSelectedLayers ar pt s) =
       layers (translateSelectedLayers ar pt
                 (s\<lparr>presence := (presence s)\<lparr>selection := removeAll i (selection (presence s))\<rparr>\<rparr>))
     \<and> layers (translateSelectedLayers ar pt s) i = None
     \<and> dom (layers (translateSelectedLayers ar pt s)) = dom (layers s)
     \<and> (selection (presence s) = i # others \<longrightarrow> resizeSelectedLayer u pt s = s)"
proof (intro impI conjI)
  assume none: "layers s i = None"
  let ?s' = "s\<lparr>presence := (presence s)\<lparr>selection := removeAll i (selection (presence s))\<rparr>\<rparr>"
  show "layers (translateSelectedLayers ar pt s) = layers (translateSelectedLayers ar pt ?s')"
  proof (cases "\<exists>cur. canvasState s = Translating cur")
    case True
    then obtain cur where m: "canvasState s = Translating cur" ..
    then have m': "canvasState ?s' = Translating cur" by simp
    show ?thesis
      using none
      by (auto simp add: translateSelectedLayers_layers [OF m]
            translateSelectedLayers_layers [OF m'] count_list_removeAll fun_eq_iff)
  next
    case False
    then have "\<forall>cur. canvasState s \<noteq> Translating cur"
      and "\<forall>cur. canvasState ?s' \<noteq> Translating cur" by simp_all
    then show ?thesis
      by (simp add: translateSelectedLayers_other_mode)
  qed
  show "layers (translateSelectedLayers ar pt s) i = None"
  proof (cases "\<exists>cur. canvasState s = Translating cur")
    case True
    then obtain cur where m: "canvasState s = Translating cur" ..
    show ?thesis using none by (simp add: translateSelectedLayers_layers [OF m])
  next
    case False
    then have "\<forall>cur. canvasState s \<noteq> Translating cur" by simp
    then show ?thesis using none by (simp add: translateSelectedLayers_other_mode)
  qed
  show "dom (layers (translateSelectedLayers ar pt s)) = dom (layers s)"
  proof (cases "\<exists>cur. canvasState s = Translating cur")
    case True
    then obtain cur where m: "canvasState s = Translating cur" ..
    show ?thesis by (auto simp add: translateSelectedLayers_layers [OF m] dom_def)
  next
    case False
    then have "\<forall>cur. canvasState s \<noteq> Translating cur" by simp
    then show ?thesis by (simp add: translateSelectedLayers_other_mode)
  qed
next
  assume "layers s i = None" and "selection (presence s) = i # others"
  then show "resizeSelectedLayer u pt s = s"
    by (cases "canvasState s") (simp_all add: resizeSelectedLayer_def)
qed

theorem missing_layer_skipped_witness:
  "layers staleDragging ''ghost'' = None \<and>
   selection (presence staleDragging) = [''ghost'', ''a''] \<and>
   layers (translateSelectedLayers ieee \<lparr>x = 3, y = 4\<rparr> staleDragging) =
     [''a'' \<mapsto> box 5 6 3 3, ''b'' \<mapsto> box 50 50 3 3] \<and>
   layers (translateSelectedLayers ieee \<lparr>x = 3, y = 4\<rparr> staleDragging) =
     layers (translateSelectedLayers ieee \<lparr>x = 3, y = 4\<rparr> dragging) \<and>
   layers staleResizing ''ghost'' = None \<and>
   selection (presence staleResizing) = ''ghost'' # [''a''] \<and>
   resizeSelectedLayer utils_spec \<lparr>x = 12, y = 9\<rparr> staleResizing = staleResizing"
proof -
  have ghost: "layers staleDragging ''ghost'' = None"
    and ghost': "layers staleResizing ''ghost'' = None"
    and sel': "selection (presence staleResizing) = ''ghost'' # [''a'']"
    by (simp_all add: staleDragging_def staleResizing_def twoLayers_def initialState_def)
  have same: "staleDragging\<lparr>presence := (presence staleDragging)
      \<lparr>selection := removeAll ''ghost'' (selection (presence staleDragging))\<rparr>\<rparr> = dragging"
    by (simp add: staleDragging_def dragging_def)
  have mode: "canvasState dragging = Translating \<lparr>x = 0, y = 0\<rparr>"
    by (simp add: dragging_def)
  have moved: "layers (translateSelectedLayers ieee \<lparr>x = 3, y = 4\<rparr> dragging) =
      [''a'' \<mapsto> box 5 6 3 3, ''b'' \<mapsto> box 50 50 3 3]"
    by (simp add: translateSelectedLayers_layers [OF mode])
       (auto simp add: dragging_def twoLayers_def box_def ieee_def toDouble_small fun_eq_iff)
  show ?thesis
    using ghost ghost' sel'
      missing_layer_skipped [of staleDragging "''ghost''" ieee "\<lparr>x = 3, y = 4\<rparr>" "[''a'']" utils_spec]
      missing_layer_skipped [of staleResizing "''ghost''" ieee "\<lparr>x = 12, y = 9\<rparr>" "[''a'']" utils_spec]
    by (simp add: same moved) (simp add: staleDragging_def)
qed

section \<open>The selection net\<close>

lemma pressed_eq: "pressed = twoLayers\<lparr>canvasState := Pressing \<lparr>x = 0, y = 0\<rparr>\<rparr>"
  by (simp add: pressed_def onPointerDown_def twoLayers_def initialState_def utils_spec_def
        pointerEventToCanvasPoint_spec_def pointerAt_def setCanvasState_def)

lemma netted_eq:
  "netted = twoLayers\<lparr>canvasState := SelectionNet \<lparr>x = 0, y = 0\<rparr> \<lparr>x = 10, y = 10\<rparr>,
                     presence := (presence twoLayers)\<lparr>cursor := Some \<lparr>x = 10, y = 10\<rparr>\<rparr>\<rparr>"
  by (simp add: netted_def pressed_eq onPointerMove_def startMultiSelection_def
        setMyPresence_def setCanvasState_def Let_def)
     (simp add: twoLayers_def initialState_def utils_spec_def ieee_def toDouble_small
        pointerEventToCanvasPoint_spec_def pointerAt_def)

lemma netSelected_eq:
  "netSelected = twoLayers\<lparr>canvasState := SelectionNet \<lparr>x = 0, y = 0\<rparr> \<lparr>x = 10, y = 10\<rparr>,
                     presence := (presence twoLayers)\<lparr>selection := [''a''],
                                   cursor := Some \<lparr>x = 10, y = 10\<rparr>\<rparr>\<rparr>"
  by (simp add: netSelected_def netted_eq onPointerMove_def updateSelectionNet_def
        setMyPresence_def setCanvasState_def Let_def)
     (simp add: twoLayers_def initialState_def utils_spec_def
        pointerEventToCanvasPoint_spec_def pointerAt_def
        findIntersectingLayersWithRectangle_spec_def box_def)

text \<open>
  Claim C6, as the code has it. In \<open>Pressing\<close> mode with a recorded origin, a pointer move
  changes the mode to \<open>SelectionNet\<close> exactly when the Manhattan distance between the
  origin and the current canvas point, as the handler computes it (the two differences
  and the sum of their absolute values are each rounded to a double), exceeds 5;
  otherwise the mode stays \<open>Pressing\<close>, and either way the move only adds the cursor to
  the presence. Where the differences and the sum are computed without rounding, this
  is the Manhattan distance itself. In \<open>SelectionNet\<close> mode every pointer move records
  the origin and the current point in the mode and writes the ids that
  \<open>findIntersectingLayersWithRectangle\<close> returns for them into the presence selection.
\<close>

theorem onPointerMove_selection_net:
  "(canvasState s = Pressing origin \<longrightarrow>
      onPointerMove ar u e s =
        s\<lparr>canvasState :=
             (if numAdd ar
                   \<bar>numSub ar (x (pointerEventToCanvasPoint u e (camera s))) (x origin)\<bar>
                   \<bar>numSub ar (y (pointerEventToCanvasPoint u e (camera s))) (y origin)\<bar> > 5
              then SelectionNet origin (pointerEventToCanvasPoint u e (camera s))
              else Pressing origin),
          presence := (presence s)\<lparr>cursor := Some (pointerEventToCanvasPoint u e (camera s))\<rparr>\<rparr>
      \<and> ((\<exists>p c. canvasState (onPointerMove ar u e s) = SelectionNet p c) =
           (numAdd ar
              \<bar>numSub ar (x (pointerEventToCanvasPoint u e (camera s))) (x origin)\<bar>
              \<bar>numSub ar (y (pointerEventToCanvasPoint u e (camera s))) (y origin)\<bar> > 5))
      \<and> (numSub ar (x (pointerEventToCanvasPoint u e (camera s))) (x origin)
             = x (pointerEventToCanvasPoint u e (camera s)) - x origin
           \<and> numSub ar (y (pointerEventToCanvasPoint u e (camera s))) (y origin)
             = y (pointerEventToCanvasPoint u e (camera s)) - y origin
           \<and> numAdd ar \<bar>x (pointerEventToCanvasPoint u e (camera s)) - x origin\<bar>
                        \<bar>y (pointerEventToCanvasPoint u e (camera s)) - y origin\<bar>
             = \<bar>x (pointerEventToCanvasPoint u e (camera s)) - x origin\<bar>
               + \<bar>y (pointerEventToCanvasPoint u e (camera s)) - y origin\<bar>
           \<longrightarrow>
           ((\<exists>p c. canvasState (onPointerMove ar u e s) = SelectionNet p c) =
            (\<bar>x (pointerEventToCanvasPoint u e (camera s)) - x origin\<bar>
               + \<bar>y (pointerEventToCanvasPoint u e (camera s)) - y origin\<bar> > 5))))
   \<and> (canvasState s = SelectionNet origin previous \<longrightarrow>
      onPointerMove ar u e s =
        s\<lparr>canvasState := SelectionNet origin (pointerEventToCanvasPoint u e (camera s)),
          presence := (presence s)
            \<lparr>selection := findIntersectingLayersWithRectangle u (layerIds s) (layers s)
                             origin (pointerEventToCanvasPoint u e (camera s)),
             cursor := Some (pointerEventToCanvasPoint u e (camera s))\<rparr>\<rparr>)"
  by (simp add: onPointerMove_def startMultiSelection_def updateSelectionNet_def
        setMyPresence_def setCanvasState_def Let_def)

theorem onPointerMove_selection_net_witness:
  "canvasState pressed = Pressing \<lparr>x = 0, y = 0\<rparr> \<and>
   onPointerMove ieee utils_spec (pointerAt 2 3) pressed =
     pressed\<lparr>presence := (presence pressed)\<lparr>cursor := Some \<lparr>x = 2, y = 3\<rparr>\<rparr>\<rparr> \<and>
   netted =
     pressed\<lparr>canvasState := SelectionNet \<lparr>x = 0, y = 0\<rparr> \<lparr>x = 10, y = 10\<rparr>,
             presence := (presence pressed)\<lparr>cursor := Some \<lparr>x = 10, y = 10\<rparr>\<rparr>\<rparr> \<and>
   numSub ieee 10 0 = 10 - 0 \<and> numAdd ieee \<bar>10 - 0\<bar> \<bar>10 - 0\<bar> = \<bar>10 - 0\<bar> + \<bar>10 - 0\<bar> \<and>
   (\<exists>p c. canvasState netted = SelectionNet p c) \<and>
   canvasState netted = SelectionNet \<lparr>x = 0, y = 0\<rparr> \<lparr>x = 10, y = 10\<rparr> \<and>
   onPointerMove ieee utils_spec (pointerAt 10 10) netted =
     netted\<lparr>presence := (presence netted)\<lparr>selection := [''a'']\<rparr>\<rparr>"
proof -
  have mode: "canvasState pressed = Pressing \<lparr>x = 0, y = 0\<rparr>"
    by (simp add: pressed_eq)
  have cam: "camera pressed = \<lparr>x = 0, y = 0\<rparr>"
    by (simp add: pressed_eq twoLayers_def initialState_def)
  have pt: "pointerEventToCanvasPoint utils_spec (pointerAt px py) \<lparr>x = 0, y = 0\<rparr> = \<lparr>x = px, y = py\<rparr>"
    for px py
    by (simp add: utils_spec_def pointerEventToCanvasPoint_spec_def pointerAt_def)
  have ex: "numSub ieee 10 0 = 10 - 0"
    "numAdd ieee \<bar>10 - 0\<bar> \<bar>10 - 0\<bar> = \<bar>10 - 0\<bar> + \<bar>10 - 0\<bar>"
    by (simp_all add: ieee_def toDouble_small)
  have near: "onPointerMove ieee utils_spec (pointerAt 2 3) pressed =
     pressed\<lparr>presence := (presence pressed)\<lparr>cursor := Some \<lparr>x = 2, y = 3\<rparr>\<rparr>\<rparr>"
    using onPointerMove_selection_net
      [where s = pressed and origin = "\<lparr>x = 0, y = 0\<rparr>" and ar = ieee and u = utils_spec
         and e = "pointerAt 2 3"] mode
    by (simp add: cam pt ieee_def toDouble_small)
  have far: "netted =
     pressed\<lparr>canvasState := SelectionNet \<lparr>x = 0, y = 0\<rparr> \<lparr>x = 10, y = 10\<rparr>,
             presence := (presence pressed)\<lparr>cursor := Some \<lparr>x = 10, y = 10\<rparr>\<rparr>\<rparr>"
    using onPointerMove_selection_net
      [where s = pressed and origin = "\<lparr>x = 0, y = 0\<rparr>" and ar = ieee and u = utils_spec
         and e = "pointerAt 10 10"] mode
    by (simp add: cam pt netted_def ieee_def toDouble_small)
  have entered: "\<exists>p c. canvasState netted = SelectionNet p c"
    using onPointerMove_selection_net
      [where s = pressed and origin = "\<lparr>x = 0, y = 0\<rparr>" and ar = ieee and u = utils_spec
         and e = "pointerAt 10 10"] mode
    by (simp add: cam pt netted_def ieee_def toDouble_small)
  have mode': "canvasState netted = SelectionNet \<lparr>x = 0, y = 0\<rparr> \<lparr>x = 10, y = 10\<rparr>"
    by (simp add: far)
  have cam': "camera netted = \<lparr>x = 0, y = 0\<rparr>"
    by (simp add: far cam)
  have found: "findIntersectingLayersWithRectangle utils_spec (layerIds netted) (layers netted)
      \<lparr>x = 0, y = 0\<rparr> \<lparr>x = 10, y = 10\<rparr> = [''a'']"
    by (simp add: far pressed_eq twoLayers_def utils_spec_def
          findIntersectingLayersWithRectangle_spec_def box_def)
  have net: "onPointerMove ieee utils_spec (pointerAt 10 10) netted =
     netted\<lparr>presence := (presence netted)\<lparr>selection := [''a'']\<rparr>\<rparr>"
    using onPointerMove_selection_net
      [where s = netted and origin = "\<lparr>x = 0, y = 0\<rparr>" and ar = ieee and u = utils_spec
         and e = "pointerAt 10 10" and previous = "\<lparr>x = 10, y = 10\<rparr>"] mode'
    by (simp add: cam' pt found) (simp add: far)
  show ?thesis
    using mode near far ex entered mode' net by blast
qed

text \<open>
  Claim C6 as stated fails at the threshold: from the origin (0, 0), the point
  \<open>(2, 3 + 1 / 2 ^ 51)\<close> is at a Manhattan distance above 5, but the sum the handler
  computes is the double 5, and the mode stays \<open>Pressing\<close>.
\<close>

theorem threshold_move_stays_pressing:
  "canvasState pressed = Pressing \<lparr>x = 0, y = 0\<rparr> \<and>
   pointerEventToCanvasPoint utils_spec (pointerAt 2 (3 + 1 / 2 ^ 51)) (camera pressed)
     = \<lparr>x = 2, y = 3 + 1 / 2 ^ 51\<rparr> \<and>
   5 < \<bar>2 - 0\<bar> + \<bar>(3 + 1 / 2 ^ 51) - (0::real)\<bar> \<and>
   canvasState (dispatch ieee utils_spec (PointerMove (pointerAt 2 (3 + 1 / 2 ^ 51))) pressed)
     = Pressing \<lparr>x = 0, y = 0\<rparr>"
proof -
  define c :: real where "c = 3 + 1 / 2 ^ 51"
  have c_pos: "0 \<le> c"
    by (simp add: c_def)
  have sub_x: "numSub ieee 2 0 = 2"
    by (simp add: ieee_def toDouble_small)
  have sub_y: "numSub ieee c 0 = c"
    by (simp only: ieee_def arith.select_convs c_def diff_zero toDouble_3_eps)
  have sum: "numAdd ieee 2 c = 5"
    by (simp only: ieee_def arith.select_convs c_def toDouble_tie_5)
  have mode: "canvasState pressed = Pressing \<lparr>x = 0, y = 0\<rparr>"
    and cam: "camera pressed = \<lparr>x = 0, y = 0\<rparr>"
    by (simp_all add: pressed_eq twoLayers_def initialState_def)
  have pt: "pointerEventToCanvasPoint utils_spec (pointerAt 2 c) \<lparr>x = 0, y = 0\<rparr> = \<lparr>x = 2, y = c\<rparr>"
    by (simp add: utils_spec_def pointerEventToCanvasPoint_spec_def pointerAt_def)
  have exceeds: "5 < \<bar>2 - 0\<bar> + \<bar>c - 0\<bar>"
    by (simp add: c_def)
  have stays: "canvasState (dispatch ieee utils_spec (PointerMove (pointerAt 2 c)) pressed)
      = Pressing \<lparr>x = 0, y = 0\<rparr>"
    using c_pos
    by (simp add: onPointerMove_def startMultiSelection_def setMyPresence_def Let_def
          mode cam pt sub_x sub_y sum)
  show ?thesis
    using mode pt exceeds stays unfolding c_def cam by blast
qed

section \<open>Drawing with the pencil\<close>

text \<open>
  Claim C7, as the code has it. In \<open>Pencil\<close> mode, \<open>continueDrawing\<close> appends the sample
  made of the point and the event's pressure to the draft exactly when
  \<^verbatim>\<open>e.buttons\<close> is 1, that is when the primary button is held and no other, and a draft
  exists, unless the draft is a single sample at the same \<open>x\<close> and \<open>y\<close>, in which case
  the draft stays as it is. With any other button state, or with no draft, the state is
  unchanged. The draft after a pointer move is the one \<open>continueDrawing\<close> leaves.
\<close>

theorem continueDrawing_appends:
  "canvasState s = Pencil \<longrightarrow>
     (buttons e = 1 \<and> pencilDraft (presence s) = Some draft
        \<and> \<not> (\<exists>pr. draft = [(x pt, y pt, pr)]) \<longrightarrow>
        continueDrawing pt e s =
          s\<lparr>presence := (presence s)
               \<lparr>cursor := Some pt,
                pencilDraft := Some (draft @ [(x pt, y pt, pressure e)])\<rparr>\<rparr>)
     \<and> (buttons e = 1 \<and> pencilDraft (presence s) = Some [(x pt, y pt, pr)] \<longrightarrow>
        continueDrawing pt e s = s\<lparr>presence := (presence s)\<lparr>cursor := Some pt\<rparr>\<rparr>)
     \<and> (buttons e \<noteq> 1 \<or> pencilDraft (presence s) = None \<longrightarrow> continueDrawing pt e s = s)
     \<and> pencilDraft (presence (onPointerMove ar u e s)) =
         pencilDraft (presence (continueDrawing (pointerEventToCanvasPoint u e (camera s)) e s))"
proof (intro impI conjI)
  assume m: "canvasState s = Pencil"
  show "pencilDraft (presence (onPointerMove ar u e s)) =
         pencilDraft (presence (continueDrawing (pointerEventToCanvasPoint u e (camera s)) e s))"
    using m by (simp add: onPointerMove_def setMyPresence_def Let_def)
next
  assume m: "canvasState s = Pencil"
    and h: "buttons e = 1 \<and> pencilDraft (presence s) = Some draft
        \<and> \<not> (\<exists>pr. draft = [(x pt, y pt, pr)])"
  have "\<not> (length draft = 1 \<and> fst (draft ! 0) = x pt \<and> fst (snd (draft ! 0)) = y pt)"
  proof
    assume a: "length draft = 1 \<and> fst (draft ! 0) = x pt \<and> fst (snd (draft ! 0)) = y pt"
    then obtain p where "draft = [p]"
      by (cases draft) auto
    with a have "draft = [(x pt, y pt, snd (snd p))]"
      by (cases p) auto
    with h show False by blast
  qed
  then show "continueDrawing pt e s =
          s\<lparr>presence := (presence s)
               \<lparr>cursor := Some pt,
                pencilDraft := Some (draft @ [(x pt, y pt, pressure e)])\<rparr>\<rparr>"
    using m h by (simp add: continueDrawing_def setMyPresence_def)
next
  assume m: "canvasState s = Pencil"
    and h: "buttons e = 1 \<and> pencilDraft (presence s) = Some [(x pt, y pt, pr)]"
  then show "continueDrawing pt e s = s\<lparr>presence := (presence s)\<lparr>cursor := Some pt\<rparr>\<rparr>"
    by (simp add: continueDrawing_def setMyPresence_def)
next
  assume "buttons e \<noteq> 1 \<or> pencilDraft (presence s) = None"
  then show "continueDrawing pt e s = s"
    by (auto simp add: continueDrawing_def split: option.splits)
qed

theorem continueDrawing_appends_witness:
  "canvasState draftOne = Pencil \<and> buttons (pointerAt 15 5) = 1 \<and>
   pencilDraft (presence draftOne) = Some [(5, 5, 1 / 2)] \<and>
   \<not> (\<exists>pr. [(5 :: number, 5 :: number, 1 / 2 :: number)] = [(x \<lparr>x = 15, y = 5\<rparr>, y \<lparr>x = 15, y = 5\<rparr>, pr)]) \<and>
   continueDrawing \<lparr>x = 15, y = 5\<rparr> (pointerAt 15 5) draftOne =
     draftOne\<lparr>presence := (presence draftOne)
        \<lparr>cursor := Some \<lparr>x = 15, y = 5\<rparr>,
         pencilDraft := Some [(5, 5, 1 / 2), (15, 5, 1 / 2)]\<rparr>\<rparr> \<and>
   continueDrawing \<lparr>x = 5, y = 5\<rparr> (pointerAt 5 5) draftOne =
     draftOne\<lparr>presence := (presence draftOne)\<lparr>cursor := Some \<lparr>x = 5, y = 5\<rparr>\<rparr>\<rparr> \<and>
   buttons ((pointerAt 15 5)\<lparr>buttons := 0\<rparr>) \<noteq> 1 \<and>
   continueDrawing \<lparr>x = 15, y = 5\<rparr> ((pointerAt 15 5)\<lparr>buttons := 0\<rparr>) draftOne = draftOne \<and>
   pencilDraft (presence (onPointerMove ieee utils_spec (pointerAt 15 5) draftOne)) =
     Some [(5, 5, 1 / 2), (15, 5, 1 / 2)]"
proof -
  have mode: "canvasState draftOne = Pencil"
    and draft: "pencilDraft (presence draftOne) = Some [(5, 5, 1 / 2)]"
    and cam: "camera draftOne = \<lparr>x = 0, y = 0\<rparr>"
    by (simp_all add: draftOne_def initialState_def)
  have btn: "buttons (pointerAt 15 5) = 1" "buttons (pointerAt 5 5) = 1"
    "buttons ((pointerAt 15 5)\<lparr>buttons := 0\<rparr>) \<noteq> 1"
    "pressure (pointerAt 15 5) = 1 / 2"
    by (simp_all add: pointerAt_def)
  have pt: "pointerEventToCanvasPoint utils_spec (pointerAt 15 5) \<lparr>x = 0, y = 0\<rparr> = \<lparr>x = 15, y = 5\<rparr>"
    by (simp add: utils_spec_def pointerEventToCanvasPoint_spec_def pointerAt_def)
  show ?thesis
    using mode draft btn
      continueDrawing_appends [where s = draftOne and e = "pointerAt 15 5"
        and draft = "[(5, 5, 1 / 2)]" and pt = "\<lparr>x = 15, y = 5\<rparr>" and pr = "1 / 2"
        and ar = ieee and u = utils_spec]
      continueDrawing_appends [where s = draftOne and e = "pointerAt 5 5"
        and draft = "[(5, 5, 1 / 2)]" and pt = "\<lparr>x = 5, y = 5\<rparr>" and pr = "1 / 2"
        and ar = ieee and u = utils_spec]
      continueDrawing_appends [where s = draftOne and e = "(pointerAt 15 5)\<lparr>buttons := 0\<rparr>"
        and draft = "[(5, 5, 1 / 2)]" and pt = "\<lparr>x = 15, y = 5\<rparr>" and pr = "1 / 2"
        and ar = ieee and u = utils_spec]
    by (simp add: cam pt)
qed

text \<open>
  Claim C7 as stated fails when the primary button is held together with another one.
  \<^verbatim>\<open>e.buttons\<close> is the bit mask of the held buttons: 3 is the primary button (1) and
  the secondary button (2). With a draft of one sample at (5, 5), a pointer move to
  (15, 5) with \<^verbatim>\<open>e.buttons\<close> = 3 appends nothing.
\<close>

theorem continueDrawing_ignores_two_buttons:
  "canvasState draftOne = Pencil \<and>
   buttons ((pointerAt 15 5)\<lparr>buttons := 3\<rparr>) = 3 \<and>
   odd (buttons ((pointerAt 15 5)\<lparr>buttons := 3\<rparr>)) \<and>
   pencilDraft (presence draftOne) = Some [(5, 5, 1 / 2)] \<and>
   pencilDraft (presence
       (dispatch ieee utils_spec (PointerMove ((pointerAt 15 5)\<lparr>buttons := 3\<rparr>)) draftOne))
     = Some [(5, 5, 1 / 2)] \<and>
   continueDrawing \<lparr>x = 15, y = 5\<rparr> ((pointerAt 15 5)\<lparr>buttons := 3\<rparr>) draftOne = draftOne"
  by (simp add: draftOne_def initialState_def pointerAt_def onPointerMove_def
        continueDrawing_def setMyPresence_def Let_def)

section \<open>Releasing the pointer\<close>

lemma unselectLayers_eq:
  "unselectLayers s =
     (if selection (presence s) = [] then s
      else s\<lparr>presence := (presence s)\<lparr>selection := []\<rparr>,
             history := (history s)\<lparr>undoable := undoable (history s) @ [[Selection []]]\<rparr>\<rparr>)"
  by (simp add: unselectLayers_def setMyPresence_def)

text \<open>
  Claim C8, as the code has it. \<open>unselectLayers\<close> runs on a pointer-up only in the idle
  branch, when the mode is \<open>NoneMode\<close> or \<open>Pressing\<close>: the selection is empty afterwards,
  and the history gains an entry exactly when the selection was not empty before. A
  pointer-up in \<open>SelectionNet\<close>, \<open>Translating\<close> or \<open>Resizing\<close> mode takes the last
  \<^verbatim>\<open>else\<close> branch, which only resets the mode and resumes the history: the selection,
  also the one a selection net produced, is kept. In \<open>Inserting\<close> mode the pointer-up
  runs \<open>insertLayer\<close> and in \<open>Pencil\<close> mode \<open>insertPath\<close>; neither calls
  \<open>unselectLayers\<close>.
\<close>

theorem onPointerUp_branches:
  "(canvasState s = NoneMode \<or> (\<exists>p. canvasState s = Pressing p) \<longrightarrow>
      onPointerUp u newId e s = history_resume (setCanvasState NoneMode (unselectLayers s))
      \<and> selection (presence (onPointerUp u newId e s)) = []
      \<and> undoable (history (onPointerUp u newId e s)) =
          (if selection (presence s) = [] then undoable (history s)
           else undoable (history s) @ [[Selection []]]))
   \<and> ((\<exists>a c. canvasState s = SelectionNet a c) \<or> (\<exists>c. canvasState s = Translating c)
        \<or> (\<exists>c k. canvasState s = Resizing c k) \<longrightarrow>
      onPointerUp u newId e s =
        s\<lparr>canvasState := NoneMode, history := (history s)\<lparr>paused := False\<rparr>\<rparr>)
   \<and> (canvasState s = Inserting layerType \<longrightarrow>
      onPointerUp u newId e s =
        history_resume (insertLayer newId layerType (pointerEventToCanvasPoint u e (camera s)) s))
   \<and> (canvasState s = Pencil \<longrightarrow>
      onPointerUp u newId e s = history_resume (insertPath u newId s))"
  by (auto simp add: onPointerUp_def unselectLayers_eq history_resume_def setCanvasState_def
        Let_def)

theorem onPointerUp_branches_witness:
  "canvasState selectedIdle = NoneMode \<and>
   onPointerUp utils_spec ''n1'' (pointerAt 10 10) selectedIdle =
     twoLayers\<lparr>history := \<lparr>paused = False, undoable = [[Selection []]]\<rparr>\<rparr> \<and>
   (\<exists>a c. canvasState netSelected = SelectionNet a c) \<and>
   onPointerUp utils_spec ''n1'' (pointerAt 10 10) netSelected =
     netSelected\<lparr>canvasState := NoneMode\<rparr> \<and>
   canvasState inserting = Inserting Rectangle \<and>
   selection (presence (onPointerUp utils_spec ''n1'' (pointerAt 10 10) inserting)) = [''n1''] \<and>
   canvasState draftOne = Pencil \<and>
   onPointerUp utils_spec ''n1'' (pointerAt 10 10) draftOne = initialState\<lparr>canvasState := Pencil\<rparr>"
proof -
  have idle: "canvasState selectedIdle = NoneMode"
    and net: "\<exists>a c. canvasState netSelected = SelectionNet a c"
    and ins: "canvasState inserting = Inserting Rectangle"
    and pen: "canvasState draftOne = Pencil"
    by (simp_all add: selectedIdle_def netSelected_eq inserting_def draftOne_def
          twoLayers_def initialState_def)
  have small: "\<not> MAX_LAYERS \<le> size_layers (layers inserting)"
    by (simp add: inserting_def selectedIdle_def twoLayers_def size_layers_def MAX_LAYERS_def)
  have r1: "history_resume (setCanvasState NoneMode (unselectLayers selectedIdle)) =
      twoLayers\<lparr>history := \<lparr>paused = False, undoable = [[Selection []]]\<rparr>\<rparr>"
    by (simp add: unselectLayers_eq history_resume_def setCanvasState_def)
       (simp add: selectedIdle_def twoLayers_def initialState_def)
  have r2: "netSelected\<lparr>canvasState := NoneMode,
        history := (history netSelected)\<lparr>paused := False\<rparr>\<rparr> = netSelected\<lparr>canvasState := NoneMode\<rparr>"
    by (simp add: netSelected_eq twoLayers_def initialState_def)
  have r3: "selection (presence (history_resume (insertLayer ''n1'' Rectangle
        (pointerEventToCanvasPoint utils_spec (pointerAt 10 10) (camera inserting)) inserting)))
      = [''n1'']"
    using small
    by (simp add: insertLayer_def history_resume_def setMyPresence_def setCanvasState_def Let_def)
  have r4: "history_resume (insertPath utils_spec ''n1'' draftOne) = initialState\<lparr>canvasState := Pencil\<rparr>"
    by (simp add: insertPath_def history_resume_def setMyPresence_def draftOne_def initialState_def)
  show ?thesis
    using idle net ins pen
      onPointerUp_branches [of selectedIdle utils_spec "''n1''" "pointerAt 10 10" Rectangle]
      onPointerUp_branches [of netSelected utils_spec "''n1''" "pointerAt 10 10" Rectangle]
      onPointerUp_branches [of inserting utils_spec "''n1''" "pointerAt 10 10" Rectangle]
      onPointerUp_branches [of draftOne utils_spec "''n1''" "pointerAt 10 10" Rectangle]
    by (simp add: r1 r2 r3 r4)
qed

text \<open>
  Claim C8 as stated fails: after a marquee over \<open>a\<close>, the pointer-up leaves \<open>a\<close> selected
  and enters nothing in the history, which is not what the idle branch would have
  done.
\<close>

theorem onPointerUp_keeps_net_selection:
  "canvasState netSelected = SelectionNet \<lparr>x = 0, y = 0\<rparr> \<lparr>x = 10, y = 10\<rparr> \<and>
   selection (presence netSelected) = [''a''] \<and>
   selection (presence (dispatch ieee utils_spec (PointerUp ''n1'' (pointerAt 10 10)) netSelected))
     = [''a''] \<and>
   undoable (history (dispatch ieee utils_spec (PointerUp ''n1'' (pointerAt 10 10)) netSelected))
     = [] \<and>
   dispatch ieee utils_spec (PointerUp ''n1'' (pointerAt 10 10)) netSelected
     \<noteq> history_resume (setCanvasState NoneMode (unselectLayers netSelected))"
proof -
  have up: "onPointerUp utils_spec ''n1'' (pointerAt 10 10) netSelected =
      netSelected\<lparr>canvasState := NoneMode\<rparr>"
    by (simp add: netSelected_eq onPointerUp_def setCanvasState_def history_resume_def Let_def)
       (simp add: twoLayers_def initialState_def)
  have sel: "selection (presence netSelected) = [''a'']"
    by (simp add: netSelected_eq)
  have "selection (presence (history_resume (setCanvasState NoneMode (unselectLayers netSelected))))
      = []"
    by (simp add: unselectLayers_eq history_resume_def setCanvasState_def)
  moreover have "selection (presence (dispatch ieee utils_spec (PointerUp ''n1'' (pointerAt 10 10))
      netSelected)) = [''a'']"
    using sel by (simp add: up)
  ultimately have "dispatch ieee utils_spec (PointerUp ''n1'' (pointerAt 10 10)) netSelected
     \<noteq> history_resume (setCanvasState NoneMode (unselectLayers netSelected))"
    by (metis list.distinct(1))
  moreover have "undoable (history netSelected) = []"
    by (simp add: netSelected_eq twoLayers_def initialState_def)
  ultimately show ?thesis
    using sel by (simp add: up) (simp add: netSelected_eq)
qed

section \<open>Pausing and resuming the history\<close>

text \<open>
  Claim C9, as the code has it. Every pointer-up resumes the history, whatever the mode:
  after \<open>onPointerUp\<close>, and so after any sequence of events that ends in a pointer-up,
  the history is not paused. A pointer-down on a layer pauses the history and starts a
  drag when the mode is neither \<open>Pencil\<close> nor \<open>Inserting\<close>, and does nothing in those two
  modes. The component binds no handler for a lost pointer capture, so that event
  leaves the state, and with it the history, as it was.
\<close>

theorem pointer_up_resumes_history:
  "\<not> paused (history (onPointerUp u newId e s))
   \<and> \<not> paused (history (fold (dispatch ar u) (evs @ [PointerUp newId e]) s))
   \<and> (canvasState s \<noteq> Pencil \<and> (\<forall>t. canvasState s \<noteq> Inserting t) \<longrightarrow>
        paused (history (onLayerPointerDown u d i s))
        \<and> canvasState (onLayerPointerDown u d i s)
            = Translating (pointerEventToCanvasPoint u d (camera s)))
   \<and> (canvasState s = Pencil \<or> (\<exists>t. canvasState s = Inserting t) \<longrightarrow>
        onLayerPointerDown u d i s = s)
   \<and> dispatch ar u LostPointerCapture s = s"
proof -
  have up: "\<not> paused (history (onPointerUp u newId e s'))" for s'
    by (simp add: onPointerUp_def history_resume_def Let_def)
  have down: "canvasState s \<noteq> Pencil \<and> (\<forall>t. canvasState s \<noteq> Inserting t) \<longrightarrow>
        paused (history (onLayerPointerDown u d i s))
        \<and> canvasState (onLayerPointerDown u d i s)
            = Translating (pointerEventToCanvasPoint u d (camera s))"
    by (cases "canvasState s")
       (simp_all add: onLayerPointerDown_def history_pause_def setMyPresence_def
          setCanvasState_def Let_def)
  have skip: "canvasState s = Pencil \<or> (\<exists>t. canvasState s = Inserting t) \<longrightarrow>
        onLayerPointerDown u d i s = s"
    by (auto simp add: onLayerPointerDown_def)
  show ?thesis
    using up down skip by simp
qed

theorem pointer_up_resumes_history_witness:
  "canvasState twoLayers \<noteq> Pencil \<and> (\<forall>t. canvasState twoLayers \<noteq> Inserting t) \<and>
   paused (history (onLayerPointerDown utils_spec (pointerAt 3 3) ''a'' twoLayers)) \<and>
   canvasState (onLayerPointerDown utils_spec (pointerAt 3 3) ''a'' twoLayers)
     = Translating \<lparr>x = 3, y = 3\<rparr> \<and>
   \<not> paused (history (fold (dispatch ieee utils_spec)
        ([LayerPointerDown (pointerAt 3 3) ''a'', PointerMove (pointerAt 6 7)]
           @ [PointerUp ''n1'' (pointerAt 6 7)]) twoLayers)) \<and>
   canvasState draftOne = Pencil \<and>
   onLayerPointerDown utils_spec (pointerAt 3 3) ''a'' draftOne = draftOne"
proof -
  have mode: "canvasState twoLayers \<noteq> Pencil \<and> (\<forall>t. canvasState twoLayers \<noteq> Inserting t)"
    by (simp add: twoLayers_def initialState_def)
  have pen: "canvasState draftOne = Pencil"
    by (simp add: draftOne_def)
  have pt: "pointerEventToCanvasPoint utils_spec (pointerAt 3 3) (camera twoLayers) = \<lparr>x = 3, y = 3\<rparr>"
    by (simp add: utils_spec_def pointerEventToCanvasPoint_spec_def pointerAt_def
          twoLayers_def initialState_def)
  show ?thesis
    using mode pen
      pointer_up_resumes_history [where u = utils_spec and newId = "''n1''"
        and e = "pointerAt 6 7" and s = twoLayers and ar = ieee
        and evs = "[LayerPointerDown (pointerAt 3 3) ''a'', PointerMove (pointerAt 6 7)]"
        and d = "pointerAt 3 3" and i = "''a''"]
      pointer_up_resumes_history [where u = utils_spec and newId = "''n1''"
        and e = "pointerAt 6 7" and s = draftOne and ar = ieee and evs = "[]"
        and d = "pointerAt 3 3" and i = "''a''"]
    by (simp add: pt)
qed

text \<open>
  Claim C9 as stated fails for a lost pointer capture: after a pointer-down on layer
  \<open>a\<close>, the event leaves the history paused.
\<close>

theorem capture_loss_leaves_history_paused:
  "paused (history (dispatch ieee utils_spec LostPointerCapture
     (dispatch ieee utils_spec (LayerPointerDown (pointerAt 3 3) ''a'') twoLayers)))"
  by (simp add: onLayerPointerDown_def history_pause_def setMyPresence_def setCanvasState_def
        Let_def twoLayers_def initialState_def)

end
